theory Spec2Isabelle
  imports Complex_Main
begin

section \<open>Data model (shared/schema.ts)\<close>

text \<open>
  The tables of the rental marketplace, one record per row type. Integer columns are
  \<open>int\<close>, timestamp columns are milliseconds since the epoch (the value of
  \<open>Date.getTime()\<close>), nullable text columns are \<open>string option\<close>.
  Field names carry a prefix because several tables share column names.
\<close>

record equipment =
  e_id :: int
  e_ownerId :: int
  e_name :: string
  e_description :: string
  e_category :: string
  e_dailyRate :: int
  e_imageUrl :: string
  e_location :: string
  e_availability :: bool
  e_specs :: string
  e_features :: string

record booking =
  b_id :: int
  b_equipmentId :: int
  b_userId :: int
  b_startDate :: int
  b_endDate :: int
  b_totalPrice :: int
  b_status :: string
  b_razorpayOrderId :: "string option"
  b_razorpayPaymentId :: "string option"
  b_isRated :: bool
  b_createdAt :: int
  b_lastStatusUpdate :: int

record review =
  r_id :: int
  r_userId :: int
  r_equipmentId :: int
  r_rating :: int
  r_comment :: string
  r_createdAt :: int

text \<open>
  The store: the three tables in row order, the two serial counters, and the log of
  receipts produced by \<open>generateReceipt\<close> (booking id, payment id), the one
  side effect of the payment module that is not a table write.
\<close>

record db =
  equipmentTable :: "equipment list"
  bookings :: "booking list"
  reviews :: "review list"
  bookingsSeq :: int
  reviewsSeq :: int
  receipts :: "(int \<times> string) list"

datatype error = Thrown string

section \<open>JavaScript dates\<close>

text \<open>
  A \<open>Date\<close> object is its time value, or \<open>None\<close> for an Invalid Date
  (time value NaN). \<open>setUTCHours\<close> keeps the UTC day of the time value, replaces
  the time within the day, and clips: a result beyond 8.64e15 ms is an Invalid Date.
\<close>

type_synonym jsdate = "int option"

definition msPerDay :: int where
  "msPerDay = 1000 * 3600 * 24"

definition maxTime :: int where
  "maxTime = 8640000000000000"

definition timeClip :: "int \<Rightarrow> jsdate" where
  "timeClip t = (if - maxTime \<le> t \<and> t \<le> maxTime then Some t else None)"

definition setUTCHours :: "int \<Rightarrow> int \<Rightarrow> int \<Rightarrow> int \<Rightarrow> int \<Rightarrow> jsdate" where
  "setUTCHours t h m sec ms =
     timeClip ((t div msPerDay) * msPerDay + (((h * 60 + m) * 60 + sec) * 1000 + ms))"

section \<open>What the database accepts\<close>

text \<open>
  The driver sends a \<open>Date\<close> to the database as its ISO string
  (\<open>toISOString\<close>), and the database reads that string only for the years 0001 to
  9999: from 0001-01-01T00:00:00.000Z to 9999-12-31T23:59:59.999Z. For any other date
  the statement fails and the driver throws. An \<open>integer\<close> column holds 32-bit
  signed values; a value outside makes the statement fail as well.
\<close>

definition pgTimestampOk :: "int \<Rightarrow> bool" where
  "pgTimestampOk t = (- 62135596800000 \<le> t \<and> t \<le> 253402300799999)"

definition int32Ok :: "int \<Rightarrow> bool" where
  "int32Ok n = (- 2147483648 \<le> n \<and> n \<le> 2147483647)"

section \<open>Storage (DatabaseStorage)\<close>

definition getEquipment :: "db \<Rightarrow> int \<Rightarrow> equipment option" where
  "getEquipment s eid = find (\<lambda>e. e_id e = eid) (equipmentTable s)"

definition getBooking :: "db \<Rightarrow> int \<Rightarrow> booking option" where
  "getBooking s bid = find (\<lambda>b. b_id b = bid) (bookings s)"

text \<open>
  \<open>getBookingsByDateRange\<close>: an invalid bound returns the empty list; the bounds
  are moved to the start and the end of their UTC day; when a normalised bound is an
  Invalid Date or a date the database does not accept, the query throws, and the
  function's own \<open>catch\<close> turns every error into the empty list. Otherwise the
  rows of the equipment that satisfy one of the three range conditions are returned.
\<close>

definition getBookingsByDateRange :: "db \<Rightarrow> int \<Rightarrow> jsdate \<Rightarrow> jsdate \<Rightarrow> booking list" where
  "getBookingsByDateRange s equipmentId startDate endDate =
     (case startDate of
        None \<Rightarrow> []
      | Some start0 \<Rightarrow>
         (case endDate of
            None \<Rightarrow> []
          | Some end0 \<Rightarrow>
             (case setUTCHours start0 0 0 0 0 of
                None \<Rightarrow> []
              | Some startN \<Rightarrow>
                 (case setUTCHours end0 23 59 59 999 of
                    None \<Rightarrow> []
                  | Some endN \<Rightarrow>
                      if \<not> (pgTimestampOk startN \<and> pgTimestampOk endN) then []
                      else
                        filter (\<lambda>b. b_equipmentId b = equipmentId \<and>
                                  ((startN \<le> b_startDate b \<and> b_startDate b \<le> endN) \<or>
                                   (startN \<le> b_endDate b \<and> b_endDate b \<le> endN) \<or>
                                   (b_startDate b \<le> startN \<and> endN \<le> b_endDate b)))
                          (bookings s)))))"

definition checkEquipmentAvailability :: "db \<Rightarrow> int \<Rightarrow> jsdate \<Rightarrow> jsdate \<Rightarrow> bool" where
  "checkEquipmentAvailability s equipmentId startDate endDate =
     (case getEquipment s equipmentId of
        None \<Rightarrow> False
      | Some equip \<Rightarrow>
          if \<not> e_availability equip then False
          else
            (let existingBookings = getBookingsByDateRange s equipmentId startDate endDate;
                 hasConflictingBooking =
                   list_ex (\<lambda>b. b_status b = ''paid'' \<or> b_status b = ''awaiting_payment'')
                     existingBookings
             in \<not> hasConflictingBooking))"

subsection \<open>The availability contract in the specification's words\<close>

text \<open>
  The query range at day granularity runs from the start of the UTC day of the start
  date to the last millisecond of the UTC day of the end date. A booking overlaps it
  when it starts inside it, ends inside it, or spans it. The query can be answered by
  the database when both dates are valid and both ends of the range are dates the
  database accepts.
\<close>

definition dayStartUTC :: "int \<Rightarrow> int" where
  "dayStartUTC t = msPerDay * (t div msPerDay)"

definition dayEndUTC :: "int \<Rightarrow> int" where
  "dayEndUTC t = msPerDay * (t div msPerDay) + 86399999"

definition overlapsDays :: "booking \<Rightarrow> int \<Rightarrow> int \<Rightarrow> bool" where
  "overlapsDays b startDate endDate =
     ((dayStartUTC startDate \<le> b_startDate b \<and> b_startDate b \<le> dayEndUTC endDate) \<or>
      (dayStartUTC startDate \<le> b_endDate b \<and> b_endDate b \<le> dayEndUTC endDate) \<or>
      (b_startDate b \<le> dayStartUTC startDate \<and> dayEndUTC endDate \<le> b_endDate b))"

definition queryable :: "jsdate \<Rightarrow> jsdate \<Rightarrow> bool" where
  "queryable startDate endDate =
     (case startDate of
        None \<Rightarrow> False
      | Some a \<Rightarrow>
         (case endDate of
            None \<Rightarrow> False
          | Some b \<Rightarrow> pgTimestampOk (dayStartUTC a) \<and> pgTimestampOk (dayEndUTC b)))"

definition holdsSlot :: "booking \<Rightarrow> bool" where
  "holdsSlot b = (b_status b = ''paid'' \<or> b_status b = ''awaiting_payment'')"

section \<open>Storage writes\<close>

text \<open>
  \<open>Partial<InsertEquipment>\<close>: the columns an update may set; \<open>None\<close> is an
  absent key. An update that sets no column is refused by the query builder, and an
  update that matches no row throws; both surface as the storage method's own error.
\<close>

record equipmentPatch =
  p_ownerId :: "int option"
  p_name :: "string option"
  p_description :: "string option"
  p_category :: "string option"
  p_dailyRate :: "int option"
  p_imageUrl :: "string option"
  p_location :: "string option"
  p_availability :: "bool option"
  p_specs :: "string option"
  p_features :: "string option"

definition noPatch :: equipmentPatch where
  "noPatch = \<lparr>p_ownerId = None, p_name = None, p_description = None, p_category = None,
     p_dailyRate = None, p_imageUrl = None, p_location = None, p_availability = None,
     p_specs = None, p_features = None\<rparr>"

definition orElse :: "'a option \<Rightarrow> 'a \<Rightarrow> 'a" where
  "orElse v d = (case v of None \<Rightarrow> d | Some x \<Rightarrow> x)"

definition setEquipment :: "equipmentPatch \<Rightarrow> equipment \<Rightarrow> equipment" where
  "setEquipment data e =
     \<lparr>e_id = e_id e,
      e_ownerId = orElse (p_ownerId data) (e_ownerId e),
      e_name = orElse (p_name data) (e_name e),
      e_description = orElse (p_description data) (e_description e),
      e_category = orElse (p_category data) (e_category e),
      e_dailyRate = orElse (p_dailyRate data) (e_dailyRate e),
      e_imageUrl = orElse (p_imageUrl data) (e_imageUrl e),
      e_location = orElse (p_location data) (e_location e),
      e_availability = orElse (p_availability data) (e_availability e),
      e_specs = orElse (p_specs data) (e_specs e),
      e_features = orElse (p_features data) (e_features e)\<rparr>"

definition updateEquipment :: "db \<Rightarrow> int \<Rightarrow> equipmentPatch \<Rightarrow> error + (equipment \<times> db)" where
  "updateEquipment s eid data =
     (if data = noPatch then Inl (Thrown ''Failed to update equipment'')
      else
        (let rows = map (\<lambda>e. if e_id e = eid then setEquipment data e else e) (equipmentTable s)
         in case find (\<lambda>e. e_id e = eid) rows of
              None \<Rightarrow> Inl (Thrown ''Failed to update equipment'')
            | Some equip \<Rightarrow> Inr (equip, s\<lparr>equipmentTable := rows\<rparr>)))"

text \<open>
  \<open>Partial<Booking>\<close>, restricted to the columns the routes set. Every update also
  stamps \<open>lastStatusUpdate\<close> with the current time.
\<close>

record bookingPatch =
  u_status :: "string option"
  u_razorpayOrderId :: "string option"
  u_razorpayPaymentId :: "string option"
  u_isRated :: "bool option"

definition noBookingPatch :: bookingPatch where
  "noBookingPatch = \<lparr>u_status = None, u_razorpayOrderId = None, u_razorpayPaymentId = None,
     u_isRated = None\<rparr>"

definition setBooking :: "bookingPatch \<Rightarrow> int \<Rightarrow> booking \<Rightarrow> booking" where
  "setBooking data now b =
     b\<lparr>b_status := orElse (u_status data) (b_status b),
       b_razorpayOrderId :=
         (case u_razorpayOrderId data of None \<Rightarrow> b_razorpayOrderId b | Some v \<Rightarrow> Some v),
       b_razorpayPaymentId :=
         (case u_razorpayPaymentId data of None \<Rightarrow> b_razorpayPaymentId b | Some v \<Rightarrow> Some v),
       b_isRated := orElse (u_isRated data) (b_isRated b),
       b_lastStatusUpdate := now\<rparr>"

definition updateBooking :: "db \<Rightarrow> int \<Rightarrow> int \<Rightarrow> bookingPatch \<Rightarrow> error + (booking \<times> db)" where
  "updateBooking s now bid data =
     (let rows = map (\<lambda>b. if b_id b = bid then setBooking data now b else b) (bookings s)
      in case find (\<lambda>b. b_id b = bid) rows of
           None \<Rightarrow> Inl (Thrown ''Failed to update booking'')
         | Some bk \<Rightarrow> Inr (bk, s\<lparr>bookings := rows\<rparr>))"

record insertBooking =
  i_equipmentId :: int
  i_userId :: int
  i_startDate :: int
  i_endDate :: int
  i_totalPrice :: int
  i_status :: string
  i_razorpayOrderId :: "string option"
  i_razorpayPaymentId :: "string option"

text \<open>
  \<open>createBooking\<close>: the insert fails, and the method throws, when the total price
  does not fit the integer column or a date is one the database does not accept.
\<close>

definition createBooking :: "db \<Rightarrow> int \<Rightarrow> insertBooking \<Rightarrow> error + (booking \<times> db)" where
  "createBooking s now ins =
     (let row = \<lparr>b_id = bookingsSeq s + 1,
                 b_equipmentId = i_equipmentId ins,
                 b_userId = i_userId ins,
                 b_startDate = i_startDate ins,
                 b_endDate = i_endDate ins,
                 b_totalPrice = i_totalPrice ins,
                 b_status = (if i_status ins = [] then ''pending'' else i_status ins),
                 b_razorpayOrderId = i_razorpayOrderId ins,
                 b_razorpayPaymentId = i_razorpayPaymentId ins,
                 b_isRated = False,
                 b_createdAt = now,
                 b_lastStatusUpdate = now\<rparr>
      in if \<not> (int32Ok (i_totalPrice ins) \<and> pgTimestampOk (i_startDate ins) \<and>
                pgTimestampOk (i_endDate ins))
         then Inl (Thrown ''Failed to create booking'')
         else Inr (row, s\<lparr>bookings := bookings s @ [row], bookingsSeq := bookingsSeq s + 1\<rparr>))"

text \<open>
  \<open>listBookings\<close>: a truthy user id selects that user's rows, anything else (absent
  or 0) selects all rows; newest first. Rows created at the same instant keep their
  table order.
\<close>

definition listBookings :: "db \<Rightarrow> int option \<Rightarrow> booking list" where
  "listBookings s userId =
     (case userId of
        Some uid \<Rightarrow>
          if uid \<noteq> 0
          then sort_key (\<lambda>b. - b_createdAt b) (filter (\<lambda>b. b_userId b = uid) (bookings s))
          else sort_key (\<lambda>b. - b_createdAt b) (bookings s)
      | None \<Rightarrow> sort_key (\<lambda>b. - b_createdAt b) (bookings s))"

record insertReview =
  v_userId :: int
  v_equipmentId :: int
  v_rating :: int
  v_comment :: string

definition createReview :: "db \<Rightarrow> int \<Rightarrow> insertReview \<Rightarrow> review \<times> db" where
  "createReview s now rv =
     (let row = \<lparr>r_id = reviewsSeq s + 1,
                 r_userId = v_userId rv,
                 r_equipmentId = v_equipmentId rv,
                 r_rating = v_rating rv,
                 r_comment = v_comment rv,
                 r_createdAt = now\<rparr>
      in (row, s\<lparr>reviews := reviews s @ [row], reviewsSeq := reviewsSeq s + 1\<rparr>))"

section \<open>parseInt\<close>

text \<open>
  \<open>parseInt\<close> without a radix: leading white space, an optional sign, an optional
  \<open>0x\<close> prefix, then the longest prefix of digits; \<open>None\<close> is NaN. Digits are
  read exactly; JavaScript rounds a value beyond 2^53 to the nearest double.
\<close>

definition isWhiteSpace :: "char \<Rightarrow> bool" where
  "isWhiteSpace c = (of_char c \<in> {32, 9, 10, 11, 12, 13 :: nat})"

definition digitValue :: "char \<Rightarrow> nat option" where
  "digitValue c =
     (let n = of_char c :: nat
      in if 48 \<le> n \<and> n \<le> 57 then Some (n - 48)
         else if 97 \<le> n \<and> n \<le> 122 then Some (n - 87)
         else if 65 \<le> n \<and> n \<le> 90 then Some (n - 55)
         else None)"

fun digitsPrefix :: "nat \<Rightarrow> string \<Rightarrow> nat list" where
  "digitsPrefix R [] = []"
| "digitsPrefix R (c # cs) =
     (case digitValue c of
        None \<Rightarrow> []
      | Some d \<Rightarrow> if d < R then d # digitsPrefix R cs else [])"

definition parseInt :: "string \<Rightarrow> int option" where
  "parseInt str =
     (let s1 = dropWhile isWhiteSpace str;
          neg = (case s1 of [] \<Rightarrow> False | c # _ \<Rightarrow> c = CHR ''-'');
          s2 = (case s1 of [] \<Rightarrow> s1
                | c # r \<Rightarrow> if c = CHR ''+'' \<or> c = CHR ''-'' then r else s1);
          hex = (case s2 of a # b # _ \<Rightarrow> a = CHR ''0'' \<and> (b = CHR ''x'' \<or> b = CHR ''X'')
                 | _ \<Rightarrow> False);
          R = (if hex then 16 else 10);
          ds = digitsPrefix R (if hex then drop 2 s2 else s2)
      in if ds = [] then None
         else Some ((if neg then - 1 else 1) * int (foldl (\<lambda>a d. a * R + d) 0 ds)))"

section \<open>Payment module (payment.ts)\<close>

text \<open>
  What the module reads from outside the program: the two secrets of the process
  environment, HMAC-SHA256 with hex output, and the gateway's answers. \<open>ordersCreate\<close>
  gives the id of the created order, or \<open>None\<close> when the gateway rejects the call;
  \<open>paymentsFetch\<close> tells whether a payment can be fetched. The gateway is outside
  the program, and what it answers may depend on anything that is the case at the
  moment it is called: \<open>ordersCreate\<close> is given the store as it stands at the call,
  beside the booking id and the amount in paise, so that the order between the writes
  of a route and its call to the gateway is part of what the route does.
\<close>

record env =
  RAZORPAY_KEY_SECRET :: string
  RAZORPAY_WEBHOOK_SECRET :: "string option"
  hmacSha256Hex :: "string \<Rightarrow> string \<Rightarrow> string"
  ordersCreate :: "db \<Rightarrow> int \<Rightarrow> int \<Rightarrow> string option"
  paymentsFetch :: "string \<Rightarrow> bool"

record paymentConfig =
  c_id :: string
  c_amount :: int

definition createPaymentSession :: "env \<Rightarrow> db \<Rightarrow> int \<Rightarrow> int \<Rightarrow> error + paymentConfig" where
  "createPaymentSession ev s bookingId amount =
     (if amount \<le> 0 then Inl (Thrown ''Invalid amount. Amount must be greater than 0'')
      else
        (let amountInPaise = amount * 100
         in case ordersCreate ev s bookingId amountInPaise of
              None \<Rightarrow> Inl (Thrown ''Razorpay order creation rejected'')
            | Some oid \<Rightarrow>
                if oid = [] then Inl (Thrown ''Failed to create Razorpay order'')
                else Inr \<lparr>c_id = oid, c_amount = amountInPaise\<rparr>))"

definition verifyPaymentSignature :: "env \<Rightarrow> string \<Rightarrow> string \<Rightarrow> string \<Rightarrow> bool" where
  "verifyPaymentSignature ev orderId paymentId signature =
     (let message = orderId @ ''|'' @ paymentId;
          expectedSignature = hmacSha256Hex ev (RAZORPAY_KEY_SECRET ev) message
      in expectedSignature = signature)"

definition generateReceipt :: "env \<Rightarrow> db \<Rightarrow> int \<Rightarrow> string \<Rightarrow> error + db" where
  "generateReceipt ev s bookingId paymentId =
     (if paymentsFetch ev paymentId
      then Inr (s\<lparr>receipts := receipts s @ [(bookingId, paymentId)]\<rparr>)
      else Inl (Thrown ''Failed to generate receipt''))"

text \<open>
  A parsed webhook event. \<open>ev_payment\<close> is \<open>event.payload.payment\<close>, absent when
  the event has no payload or the payload no payment, in which case reading a property
  of it throws. The payment object carries the fields the two event readers look at:
  \<open>status\<close>, \<open>order_id\<close> and \<open>id\<close> directly on it, and the gateway's
  \<open>entity\<close> with its notes.
\<close>

record whEntity =
  en_order_id :: string
  en_id :: string
  en_notes_bookingId :: "string option"
  en_error_description :: string

record whPayment =
  wp_status :: "string option"
  wp_order_id :: "int option"
  wp_id :: "string option"
  wp_entity :: "whEntity option"

record whEvent =
  ev_event :: "string option"
  ev_payment :: "whPayment option"

datatype WebhookResult =
    WebhookSuccessResult int string string
  | WebhookFailureResult "int option" string

definition handleWebhookEvent :: "whEvent \<Rightarrow> error + WebhookResult option" where
  "handleWebhookEvent event =
     (if ev_event event = Some ''payment.captured'' then
        (case ev_payment event of
           None \<Rightarrow> Inl (Thrown ''TypeError'')
         | Some p \<Rightarrow>
            (case wp_entity p of
               None \<Rightarrow> Inl (Thrown ''TypeError'')
             | Some ent \<Rightarrow>
                (case (case en_notes_bookingId ent of None \<Rightarrow> None | Some t \<Rightarrow> parseInt t) of
                   None \<Rightarrow> Inl (Thrown ''Booking ID not found in payment notes'')
                 | Some bookingId \<Rightarrow>
                     if bookingId = 0
                     then Inl (Thrown ''Booking ID not found in payment notes'')
                     else Inr (Some (WebhookSuccessResult bookingId (en_order_id ent) (en_id ent))))))
      else if ev_event event = Some ''payment.failed'' then
        (case ev_payment event of
           None \<Rightarrow> Inl (Thrown ''TypeError'')
         | Some p \<Rightarrow>
            (case wp_entity p of
               None \<Rightarrow> Inl (Thrown ''TypeError'')
             | Some ent \<Rightarrow>
                 Inr (Some (WebhookFailureResult
                   (case en_notes_bookingId ent of None \<Rightarrow> None | Some t \<Rightarrow> parseInt t)
                   (en_error_description ent)))))
      else Inr None)"

section \<open>Routes (routes.ts)\<close>

text \<open>
  A route takes the store, the request and, where it stamps rows, the current time; it
  returns the HTTP reply and the store it leaves behind. A thrown error keeps the writes
  made before it, so the state travels with the error to the enclosing \<open>catch\<close>.
  \<open>req.user\<close> is \<open>None\<close> for an unauthenticated request.
\<close>

record sessionUser =
  su_id :: int
  su_isAdmin :: bool

datatype payload =
    NoBody
  | TextBody string
  | ErrorJson string
  | EquipmentJson equipment
  | BookingCreatedJson booking paymentConfig
  | VerifiedJson booking
  | ReceivedJson
  | ReviewJson review

type_synonym reply = "nat \<times> payload"

subsection \<open>PATCH /api/equipment/:id and PATCH /api/equipment/:id/availability\<close>

text \<open>
  The body of an equipment edit, key by key (\<open>None\<close>: the key is absent). The text
  fields of the form arrive as strings; \<open>specs\<close>, \<open>features\<close> and
  \<open>dailyRate\<close> are parsed by the route when they are non-empty, and an empty one
  reaches the store unparsed: the JSON columns store it, the integer column rejects
  it. \<open>JSON.parse\<close> is a parameter: it returns the parsed value (as text) or
  \<open>None\<close> when it throws.
\<close>

record equipmentBody =
  q_ownerId :: "int option"
  q_name :: "string option"
  q_description :: "string option"
  q_category :: "string option"
  q_dailyRate :: "string option"
  q_imageUrl :: "string option"
  q_location :: "string option"
  q_availability :: "bool option"
  q_specs :: "string option"
  q_features :: "string option"

definition truthy :: "string option \<Rightarrow> bool" where
  "truthy v = (case v of None \<Rightarrow> False | Some t \<Rightarrow> t \<noteq> [])"

text \<open>
  \<open>updateData\<close>: the body's keys, with the uploaded file's path as image URL and the
  parsed \<open>specs\<close>, \<open>features\<close> and \<open>dailyRate\<close> in place of their texts.
\<close>

definition updateDataOf ::
  "(string \<Rightarrow> string option) \<Rightarrow> equipmentBody \<Rightarrow> string option \<Rightarrow> equipmentPatch" where
  "updateDataOf JSON_parse body file =
     \<lparr>p_ownerId = q_ownerId body,
      p_name = q_name body,
      p_description = q_description body,
      p_category = q_category body,
      p_dailyRate =
        (if truthy (q_dailyRate body) then parseInt (the (q_dailyRate body)) else None),
      p_imageUrl =
        (case file of None \<Rightarrow> q_imageUrl body
         | Some filename \<Rightarrow> Some (''/uploads/'' @ filename)),
      p_location = q_location body,
      p_availability = q_availability body,
      p_specs =
        (if truthy (q_specs body) then JSON_parse (the (q_specs body)) else q_specs body),
      p_features =
        (if truthy (q_features body) then JSON_parse (the (q_features body))
         else q_features body)\<rparr>"

definition patchEquipment ::
  "(string \<Rightarrow> string option) \<Rightarrow> db \<Rightarrow> sessionUser option \<Rightarrow> string \<Rightarrow> equipmentBody \<Rightarrow>
   string option \<Rightarrow> reply \<times> db" where
  "patchEquipment JSON_parse s user idParam body file =
     (case user of
        None \<Rightarrow> ((401, ErrorJson ''Authentication required''), s)
      | Some u \<Rightarrow>
         (case parseInt idParam of
            None \<Rightarrow> ((500, ErrorJson ''Failed to update equipment''), s)
          | Some equipmentId \<Rightarrow>
             (case getEquipment s equipmentId of
                None \<Rightarrow> ((404, ErrorJson ''Equipment not found''), s)
              | Some equip \<Rightarrow>
                  if e_ownerId equip \<noteq> su_id u \<and> \<not> su_isAdmin u
                  then ((403, ErrorJson ''Not authorized to update this equipment''), s)
                  else if truthy (q_specs body) \<and> JSON_parse (the (q_specs body)) = None
                  then ((400, ErrorJson ''Invalid specs format''), s)
                  else if truthy (q_features body) \<and> JSON_parse (the (q_features body)) = None
                  then ((400, ErrorJson ''Invalid features format''), s)
                  else if (q_dailyRate body = Some []) \<or>
                          (truthy (q_dailyRate body) \<and> parseInt (the (q_dailyRate body)) = None)
                  then ((500, ErrorJson ''Failed to update equipment''), s)
                  else
                    (case updateEquipment s equipmentId (updateDataOf JSON_parse body file) of
                       Inl err \<Rightarrow> ((500, ErrorJson ''Failed to update equipment''), s)
                     | Inr (updated, s') \<Rightarrow> ((200, EquipmentJson updated), s')))))"

definition patchAvailability ::
  "db \<Rightarrow> sessionUser option \<Rightarrow> string \<Rightarrow> bool option \<Rightarrow> reply \<times> db" where
  "patchAvailability s user idParam available =
     (case user of
        None \<Rightarrow> ((401, NoBody), s)
      | Some u \<Rightarrow>
         (case parseInt idParam of
            None \<Rightarrow> ((500, ErrorJson ''Failed to update availability''), s)
          | Some equipmentId \<Rightarrow>
             (case getEquipment s equipmentId of
                None \<Rightarrow> ((404, ErrorJson ''Equipment not found''), s)
              | Some equip \<Rightarrow>
                  if e_ownerId equip \<noteq> su_id u
                  then ((403, ErrorJson ''Not authorized to update this equipment''), s)
                  else
                    (case updateEquipment s equipmentId (noPatch\<lparr>p_availability := available\<rparr>) of
                       Inl err \<Rightarrow> ((500, ErrorJson ''Failed to update availability''), s)
                     | Inr (updated, s') \<Rightarrow> ((200, EquipmentJson updated), s')))))"

subsection \<open>POST /api/bookings\<close>

text \<open>
  The body after \<open>insertBookingSchema\<close>: the equipment id and the two dates are
  required (a date that cannot be coerced is \<open>None\<close>); the two gateway references
  are optional text and are carried into the inserted row; \<open>userId\<close> and
  \<open>status\<close> come from the route, and \<open>totalPrice\<close> is overwritten by it.
\<close>

record bookingBody =
  k_equipmentId :: "int option"
  k_startDate :: jsdate
  k_endDate :: jsdate
  k_razorpayOrderId :: "string option"
  k_razorpayPaymentId :: "string option"

text \<open>
  \<open>Math.ceil(x / y)\<close> on integers, for a positive \<open>y\<close>. Time values and
  amounts are JavaScript numbers holding integers; their arithmetic is taken as exact,
  which it is for dates less than 2^53 ms apart.
\<close>

definition ceilDiv :: "int \<Rightarrow> int \<Rightarrow> int" where
  "ceilDiv x y = - ((- x) div y)"

definition totalDays :: "int \<Rightarrow> int \<Rightarrow> int" where
  "totalDays startDate endDate = max 1 (ceilDiv (endDate - startDate) (1000 * 3600 * 24) + 1)"

text \<open>
  Admission: everything up to and including the insert of the booking row. The result
  is either the reply of a refused request (an insert that throws reaches the outer
  \<open>catch\<close>, which answers 500) or the inserted row with the equipment read at
  admission, the amount, and the store after the insert.
\<close>

definition admitBooking ::
  "db \<Rightarrow> int \<Rightarrow> sessionUser option \<Rightarrow> bookingBody \<Rightarrow>
   reply + (booking \<times> equipment \<times> int \<times> db)" where
  "admitBooking s now user body =
     (case user of
        None \<Rightarrow> Inl (401, NoBody)
      | Some u \<Rightarrow>
         (case k_equipmentId body of
            None \<Rightarrow> Inl (400, ErrorJson ''Invalid booking data'')
          | Some equipmentId \<Rightarrow>
             (case k_startDate body of
                None \<Rightarrow> Inl (400, ErrorJson ''Invalid booking data'')
              | Some startDate \<Rightarrow>
                 (case k_endDate body of
                    None \<Rightarrow> Inl (400, ErrorJson ''Invalid booking data'')
                  | Some endDate \<Rightarrow>
                     (case getEquipment s equipmentId of
                        None \<Rightarrow> Inl (404, ErrorJson ''Equipment not found'')
                      | Some equip \<Rightarrow>
                          if \<not> e_availability equip
                          then Inl (400, ErrorJson ''Equipment is not available for booking'')
                          else
                            (let totalAmount = e_dailyRate equip * totalDays startDate endDate;
                                 isAvailable =
                                   checkEquipmentAvailability s equipmentId
                                     (Some startDate) (Some endDate)
                             in if \<not> isAvailable
                                then Inl (400, ErrorJson
                                       ''Equipment is no longer available for these dates'')
                                else
                                  (case createBooking s now
                                          \<lparr>i_equipmentId = equipmentId,
                                           i_userId = su_id u,
                                           i_startDate = startDate,
                                           i_endDate = endDate,
                                           i_totalPrice = totalAmount,
                                           i_status = ''pending'',
                                           i_razorpayOrderId = k_razorpayOrderId body,
                                           i_razorpayPaymentId = k_razorpayPaymentId body\<rparr> of
                                     Inl err \<Rightarrow>
                                       Inl (500, ErrorJson ''Failed to process booking'')
                                   | Inr (bk, s1) \<Rightarrow> Inr (bk, equip, totalAmount, s1))))))))"

text \<open>
  The inner \<open>try\<close>: lock the equipment, ask the gateway for an order, record the
  order on the booking. The first step that throws ends the block with the store as it
  then stands.
\<close>

definition lockEquipment :: "db \<Rightarrow> int \<Rightarrow> error + (equipment \<times> db)" where
  "lockEquipment s equipmentId = updateEquipment s equipmentId (noPatch\<lparr>p_availability := Some False\<rparr>)"

definition orderAndRecord ::
  "env \<Rightarrow> db \<Rightarrow> int \<Rightarrow> booking \<Rightarrow> int \<Rightarrow> (error \<times> db) + (reply \<times> db)" where
  "orderAndRecord ev s2 now bk totalAmount =
     (case createPaymentSession ev s2 (b_id bk) totalAmount of
        Inl err \<Rightarrow> Inl (err, s2)
      | Inr razorpayOrder \<Rightarrow>
         (case updateBooking s2 now (b_id bk)
                 (noBookingPatch\<lparr>u_status := Some ''awaiting_payment'',
                                  u_razorpayOrderId := Some (c_id razorpayOrder)\<rparr>) of
            Inl err \<Rightarrow> Inl (err, s2)
          | Inr (updatedBooking, s3) \<Rightarrow>
              Inr ((201, BookingCreatedJson updatedBooking razorpayOrder), s3)))"

definition lockAndOrder ::
  "env \<Rightarrow> db \<Rightarrow> int \<Rightarrow> int \<Rightarrow> booking \<Rightarrow> int \<Rightarrow> (error \<times> db) + (reply \<times> db)" where
  "lockAndOrder ev s1 now equipmentId bk totalAmount =
     (case lockEquipment s1 equipmentId of
        Inl err \<Rightarrow> Inl (err, s1)
      | Inr (locked, s2) \<Rightarrow> orderAndRecord ev s2 now bk totalAmount)"

text \<open>
  The \<open>catch\<close> of the inner \<open>try\<close>: release the equipment, mark the booking
  failed. An error here reaches the outer \<open>catch\<close>.
\<close>

definition paymentErrorHandler :: "db \<Rightarrow> int \<Rightarrow> int \<Rightarrow> int \<Rightarrow> reply \<times> db" where
  "paymentErrorHandler s now equipmentId bookingId =
     (case updateEquipment s equipmentId (noPatch\<lparr>p_availability := Some True\<rparr>) of
        Inl err \<Rightarrow> ((500, ErrorJson ''Failed to process booking''), s)
      | Inr (released, s') \<Rightarrow>
         (case updateBooking s' now bookingId (noBookingPatch\<lparr>u_status := Some ''payment_failed''\<rparr>) of
            Inl err \<Rightarrow> ((500, ErrorJson ''Failed to process booking''), s')
          | Inr (failed, s'') \<Rightarrow> ((400, ErrorJson ''Payment order creation failed''), s'')))"

definition postBookings ::
  "env \<Rightarrow> db \<Rightarrow> int \<Rightarrow> sessionUser option \<Rightarrow> bookingBody \<Rightarrow> reply \<times> db" where
  "postBookings ev s now user body =
     (case admitBooking s now user body of
        Inl refused \<Rightarrow> (refused, s)
      | Inr (bk, equip, totalAmount, s1) \<Rightarrow>
         (case lockAndOrder ev s1 now (b_equipmentId bk) bk totalAmount of
            Inr ok \<Rightarrow> ok
          | Inl (paymentError, sx) \<Rightarrow>
              paymentErrorHandler sx now (b_equipmentId bk) (b_id bk)))"

subsection \<open>POST /api/bookings/verify-payment\<close>

text \<open>
  The four fields of the body; a missing or empty text field is \<open>[]\<close>, a missing
  booking id is 0: the route's first check treats them alike.
\<close>

definition verifyPayment ::
  "env \<Rightarrow> db \<Rightarrow> int \<Rightarrow> int \<Rightarrow> string \<Rightarrow> string \<Rightarrow> string \<Rightarrow> reply \<times> db" where
  "verifyPayment ev s now bookingId razorpay_order_id razorpay_payment_id razorpay_signature =
     (if bookingId = 0 \<or> razorpay_order_id = [] \<or> razorpay_payment_id = [] \<or>
         razorpay_signature = []
      then ((400, ErrorJson ''Missing required payment details''), s)
      else
        (case getBooking s bookingId of
           None \<Rightarrow> ((404, ErrorJson ''Booking not found''), s)
         | Some bk \<Rightarrow>
             if b_status bk = ''paid'' then ((200, VerifiedJson bk), s)
             else if \<not> verifyPaymentSignature ev razorpay_order_id razorpay_payment_id
                         razorpay_signature
             then
               (case updateEquipment s (b_equipmentId bk) (noPatch\<lparr>p_availability := Some True\<rparr>) of
                  Inl err \<Rightarrow> ((500, ErrorJson ''Payment verification failed''), s)
                | Inr (released, s') \<Rightarrow> ((400, ErrorJson ''Invalid payment signature''), s'))
             else
               (case updateBooking s now bookingId
                       (noBookingPatch\<lparr>u_status := Some ''paid'',
                                        u_razorpayPaymentId := Some razorpay_payment_id\<rparr>) of
                  Inl err \<Rightarrow> ((500, ErrorJson ''Payment verification failed''), s)
                | Inr (updatedBooking, s1) \<Rightarrow>
                   (case updateEquipment s1 (b_equipmentId bk)
                           (noPatch\<lparr>p_availability := Some False\<rparr>) of
                      Inl err \<Rightarrow> ((500, ErrorJson ''Payment verification failed''), s1)
                    | Inr (locked, s2) \<Rightarrow> ((200, VerifiedJson updatedBooking), s2)))))"

subsection \<open>POST /api/webhooks/razorpay\<close>

text \<open>
  The event reader defined at the end of routes.ts, the one the webhook route calls:
  it looks at \<open>event.payload.payment.status\<close> and takes the booking id from
  \<open>event.payload.payment.order_id\<close>.
\<close>

datatype routeWebhookResult =
    RouteSuccess "int option" "string option"
  | RouteFailed "int option"

definition routesHandleWebhookEvent :: "whEvent \<Rightarrow> error + routeWebhookResult option" where
  "routesHandleWebhookEvent event =
     (case ev_payment event of
        None \<Rightarrow> Inl (Thrown ''TypeError'')
      | Some p \<Rightarrow>
          if wp_status p = Some ''captured'' then Inr (Some (RouteSuccess (wp_order_id p) (wp_id p)))
          else if wp_status p = Some ''failed'' then Inr (Some (RouteFailed (wp_order_id p)))
          else Inr None)"

text \<open>
  The handler of the route, given the signature header, the text of the body, and the
  event that \<open>JSON.parse\<close> reads from that text (\<open>None\<close> when parsing throws).
  Every error is answered with status 400 by the route's \<open>catch\<close>. An update keyed
  by an absent booking id matches no row.
\<close>

definition webhookConfirm :: "env \<Rightarrow> db \<Rightarrow> int \<Rightarrow> int option \<Rightarrow> string \<Rightarrow> reply \<times> db" where
  "webhookConfirm ev s now bookingId paymentId =
     (case bookingId of
        None \<Rightarrow> ((400, TextBody ''Webhook Error: Failed to update booking''), s)
      | Some bid \<Rightarrow>
         (case updateBooking s now bid
                 (noBookingPatch\<lparr>u_status := Some ''paid'',
                                  u_razorpayPaymentId := Some paymentId\<rparr>) of
            Inl err \<Rightarrow> ((400, TextBody ''Webhook Error: Failed to update booking''), s)
          | Inr (bk, s1) \<Rightarrow>
             (case updateEquipment s1 (b_equipmentId bk) (noPatch\<lparr>p_availability := Some False\<rparr>) of
                Inl err \<Rightarrow> ((400, TextBody ''Webhook Error: Failed to update equipment''), s1)
              | Inr (locked, s2) \<Rightarrow>
                 (case generateReceipt ev s2 bid paymentId of
                    Inl err \<Rightarrow> ((400, TextBody ''Webhook Error: Failed to generate receipt''), s2)
                  | Inr s3 \<Rightarrow> ((200, ReceivedJson), s3)))))"

definition webhookFail :: "db \<Rightarrow> int \<Rightarrow> int option \<Rightarrow> reply \<times> db" where
  "webhookFail s now bookingId =
     (case bookingId of
        None \<Rightarrow> ((400, TextBody ''Webhook Error: Failed to update booking''), s)
      | Some bid \<Rightarrow>
         (case updateBooking s now bid (noBookingPatch\<lparr>u_status := Some ''payment_failed''\<rparr>) of
            Inl err \<Rightarrow> ((400, TextBody ''Webhook Error: Failed to update booking''), s)
          | Inr (bk, s1) \<Rightarrow>
             (case updateEquipment s1 (b_equipmentId bk) (noPatch\<lparr>p_availability := Some True\<rparr>) of
                Inl err \<Rightarrow> ((400, TextBody ''Webhook Error: Failed to update equipment''), s1)
              | Inr (released, s2) \<Rightarrow> ((200, ReceivedJson), s2))))"

definition razorpayWebhook ::
  "env \<Rightarrow> db \<Rightarrow> int \<Rightarrow> string option \<Rightarrow> string \<Rightarrow> whEvent option \<Rightarrow> reply \<times> db" where
  "razorpayWebhook ev s now signature rawBody parsed =
     (if truthy (RAZORPAY_WEBHOOK_SECRET ev) \<and> \<not> truthy signature
      then ((400, ErrorJson ''Missing signature''), s)
      else if truthy (RAZORPAY_WEBHOOK_SECRET ev) \<and>
              signature \<noteq> Some (hmacSha256Hex ev (the (RAZORPAY_WEBHOOK_SECRET ev)) rawBody)
      then ((400, ErrorJson ''Invalid signature''), s)
      else
        (case parsed of
           None \<Rightarrow> ((400, TextBody ''Webhook Error: Unexpected token''), s)
         | Some event \<Rightarrow>
            (case routesHandleWebhookEvent event of
               Inl err \<Rightarrow> ((400, TextBody ''Webhook Error: TypeError''), s)
             | Inr None \<Rightarrow> ((200, ReceivedJson), s)
             | Inr (Some (RouteSuccess bookingId paymentId)) \<Rightarrow>
                 if truthy paymentId then webhookConfirm ev s now bookingId (the paymentId)
                 else ((200, ReceivedJson), s)
             | Inr (Some (RouteFailed bookingId)) \<Rightarrow> webhookFail s now bookingId)))"

text \<open>
  The route as the server mounts it. index.ts installs \<open>express.json()\<close> for every
  request before the routes are registered, so the body has been read before the
  route's own \<open>express.raw\<close> runs, which then leaves it alone: when the handler runs,
  \<open>req.body\<close> is what \<open>express.json\<close> left there, an object (also for a request
  without a JSON body) or an array; a body that \<open>express.json\<close> rejects never reaches
  the route. An array is given by the string conversions of its elements, which is all
  \<open>toString\<close> reads of it: the elements joined by commas. An object converts to
  \<open>[object Object]\<close>, which \<open>JSON.parse\<close> rejects.

  With a webhook secret configured, a request without the signature header is refused,
  and for any other request the HMAC is asked to digest a value that is neither a string
  nor a buffer and throws: every request is answered 400. Without a secret, the handler
  reads the event from the string conversion of the body.
\<close>

datatype requestBody = ObjectBody | ArrayBody "string list"

fun joinComma :: "string list \<Rightarrow> string" where
  "joinComma [] = []"
| "joinComma [x] = x"
| "joinComma (x # y # ys) = x @ '','' @ joinComma (y # ys)"

definition webhookRoute ::
  "(string \<Rightarrow> whEvent option) \<Rightarrow> env \<Rightarrow> db \<Rightarrow> int \<Rightarrow> string option \<Rightarrow> requestBody \<Rightarrow>
   reply \<times> db" where
  "webhookRoute JSON_parse ev s now signature body =
     (if truthy (RAZORPAY_WEBHOOK_SECRET ev) then
        (if \<not> truthy signature then ((400, ErrorJson ''Missing signature''), s)
         else ((400, TextBody ''Webhook Error: The data argument must be of type string''), s))
      else
        (case body of
           ObjectBody \<Rightarrow> ((400, TextBody ''Webhook Error: Unexpected token''), s)
         | ArrayBody xs \<Rightarrow>
             razorpayWebhook ev s now signature (joinComma xs) (JSON_parse (joinComma xs))))"

subsection \<open>POST /api/reviews\<close>

text \<open>
  The body of a review, key by key; \<open>reviewSchema\<close> wants a numeric equipment id, a
  rating from 1 to 5 and a comment of 10 to 500 characters.
\<close>

record reviewBody =
  w_equipmentId :: "int option"
  w_rating :: "int option"
  w_comment :: "string option"

definition reviewSchemaOk :: "reviewBody \<Rightarrow> bool" where
  "reviewSchemaOk body =
     (case (w_equipmentId body, w_rating body, w_comment body) of
        (Some eid, Some rating, Some comment) \<Rightarrow>
          1 \<le> rating \<and> rating \<le> 5 \<and> 10 \<le> length comment \<and> length comment \<le> 500
      | _ \<Rightarrow> False)"

definition eligibleFor :: "int \<Rightarrow> booking \<Rightarrow> bool" where
  "eligibleFor equipmentId b =
     (b_equipmentId b = equipmentId \<and> b_status b = ''paid'' \<and> \<not> b_isRated b)"

definition postReviews :: "db \<Rightarrow> int \<Rightarrow> sessionUser option \<Rightarrow> reviewBody \<Rightarrow> reply \<times> db" where
  "postReviews s now user body =
     (case user of
        None \<Rightarrow> ((401, ErrorJson ''Authentication required''), s)
      | Some u \<Rightarrow>
          if \<not> reviewSchemaOk body then ((400, ErrorJson ''Invalid review data''), s)
          else
            (let equipmentId = the (w_equipmentId body);
                 bookingsOfUser = listBookings s (Some (su_id u))
             in case find (eligibleFor equipmentId) bookingsOfUser of
                  None \<Rightarrow> ((400, ErrorJson ''Invalid review submission''), s)
                | Some validBooking \<Rightarrow>
                   (let (newReview, s1) =
                      createReview s now
                        \<lparr>v_userId = su_id u,
                         v_equipmentId = equipmentId,
                         v_rating = the (w_rating body),
                         v_comment = the (w_comment body)\<rparr>
                    in case updateBooking s1 now (b_id validBooking)
                              (noBookingPatch\<lparr>u_isRated := Some True\<rparr>) of
                         Inl err \<Rightarrow> ((500, ErrorJson ''Failed to create review''), s1)
                       | Inr (rated, s2) \<Rightarrow> ((200, ReviewJson newReview), s2))))"

section \<open>Admission in the specification's words\<close>

text \<open>
  A Create request is admissible when it comes from an authenticated user, names an
  equipment id and two valid dates, and the availability ledger reports the equipment
  available for exactly that range.
\<close>

definition admissible :: "db \<Rightarrow> sessionUser option \<Rightarrow> bookingBody \<Rightarrow> bool" where
  "admissible s user body =
     (case user of
        None \<Rightarrow> False
      | Some u \<Rightarrow>
         (case k_equipmentId body of
            None \<Rightarrow> False
          | Some equipmentId \<Rightarrow>
             (case k_startDate body of
                None \<Rightarrow> False
              | Some startDate \<Rightarrow>
                 (case k_endDate body of
                    None \<Rightarrow> False
                  | Some endDate \<Rightarrow>
                      checkEquipmentAvailability s equipmentId (Some startDate) (Some endDate)))))"

text \<open>
  The booking a request asks for can be stored when both dates are dates the database
  accepts and the total price, the daily rate times the number of days, fits the
  integer column. The dates of a request are in order when the start date is not after
  the end date.
\<close>

definition storable :: "db \<Rightarrow> bookingBody \<Rightarrow> bool" where
  "storable s body =
     (case k_equipmentId body of
        None \<Rightarrow> False
      | Some equipmentId \<Rightarrow>
         (case k_startDate body of
            None \<Rightarrow> False
          | Some startDate \<Rightarrow>
             (case k_endDate body of
                None \<Rightarrow> False
              | Some endDate \<Rightarrow>
                 (case getEquipment s equipmentId of
                    None \<Rightarrow> False
                  | Some equip \<Rightarrow>
                      pgTimestampOk startDate \<and> pgTimestampOk endDate \<and>
                      int32Ok (e_dailyRate equip * totalDays startDate endDate)))))"

definition datesInOrder :: "bookingBody \<Rightarrow> bool" where
  "datesInOrder body =
     (case k_startDate body of
        None \<Rightarrow> False
      | Some startDate \<Rightarrow>
         (case k_endDate body of
            None \<Rightarrow> False
          | Some endDate \<Rightarrow> startDate \<le> endDate))"

section \<open>Sample data\<close>

text \<open>
  One tractor owned by user 10, rented at 500 a day, and the first days of January 2024
  (midnight UTC) as time values.
\<close>

definition tractor :: equipment where
  "tractor = \<lparr>e_id = 1, e_ownerId = 10, e_name = ''Tractor'', e_description = ''4WD tractor'',
     e_category = ''tractors'', e_dailyRate = 500, e_imageUrl = ''/uploads/t.png'',
     e_location = ''Pune'', e_availability = True, e_specs = ''{}'', e_features = ''[]''\<rparr>"

definition jan1 :: int where "jan1 = 1704067200000"
definition jan2 :: int where "jan2 = 1704153600000"
definition jan3 :: int where "jan3 = 1704240000000"
definition jan5 :: int where "jan5 = 1704412800000"

definition held :: booking where
  "held = \<lparr>b_id = 1, b_equipmentId = 1, b_userId = 20, b_startDate = jan1, b_endDate = jan3,
     b_totalPrice = 1500, b_status = ''awaiting_payment'', b_razorpayOrderId = Some ''order_1'',
     b_razorpayPaymentId = None, b_isRated = False, b_createdAt = 1704000000000,
     b_lastStatusUpdate = 1704000000000\<rparr>"

definition emptyDb :: db where
  "emptyDb = \<lparr>equipmentTable = [tractor], bookings = [], reviews = [], bookingsSeq = 0,
     reviewsSeq = 0, receipts = []\<rparr>"

definition now0 :: int where "now0 = 1704000000000"

text \<open>
  The first millisecond of the year 10000, 10000-01-01T00:00:00.000Z: a valid
  JavaScript date, one millisecond after the last date the database accepts.
\<close>

definition year10000 :: int where "year10000 = 253402300800000"

definition heldAndListed :: db where
  "heldAndListed = emptyDb\<lparr>bookings := [held], bookingsSeq := 1\<rparr>"

definition renter :: sessionUser where
  "renter = \<lparr>su_id = 20, su_isAdmin = False\<rparr>"

definition owner :: sessionUser where
  "owner = \<lparr>su_id = 10, su_isAdmin = False\<rparr>"

definition janRequest :: bookingBody where
  "janRequest = \<lparr>k_equipmentId = Some 1, k_startDate = Some jan1, k_endDate = Some jan3,
     k_razorpayOrderId = None, k_razorpayPaymentId = None\<rparr>"

text \<open>
  A request for the tractor from 2024-01-02 to the first millisecond of the year 10000.
\<close>

definition farRequest :: bookingBody where
  "farRequest = \<lparr>k_equipmentId = Some 1, k_startDate = Some jan2, k_endDate = Some year10000,
     k_razorpayOrderId = None, k_razorpayPaymentId = None\<rparr>"

definition backwardsRequest :: bookingBody where
  "backwardsRequest = \<lparr>k_equipmentId = Some 1, k_startDate = Some jan3, k_endDate = Some jan1,
     k_razorpayOrderId = None, k_razorpayPaymentId = None\<rparr>"

text \<open>
  An environment for the examples. Its \<open>hmacSha256Hex\<close> is a stand-in that only has
  to tell the signature of a text under a key from every other string; the gateway
  creates order \<open>order_1\<close> and every payment can be fetched. In \<open>gatewayDown\<close> the
  gateway rejects every order.
\<close>

definition testEnv :: env where
  "testEnv = \<lparr>RAZORPAY_KEY_SECRET = ''key_secret'', RAZORPAY_WEBHOOK_SECRET = Some ''whsec'',
     hmacSha256Hex = (\<lambda>k m. ''hmac('' @ k @ '','' @ m @ '')''),
     ordersCreate = (\<lambda>st bookingId amount. Some ''order_1''),
     paymentsFetch = (\<lambda>paymentId. True)\<rparr>"

definition gatewayDown :: env where
  "gatewayDown = testEnv\<lparr>ordersCreate := (\<lambda>st bookingId amount. None)\<rparr>"

text \<open>
  A gateway that looks at the store when it is asked for an order: it creates the
  order only if the booking is there with status \<open>pending\<close> and the equipment of the
  booking is there with its availability flag false.
\<close>

definition lockedAndPending :: "db \<Rightarrow> int \<Rightarrow> bool" where
  "lockedAndPending st bookingId =
     (case getBooking st bookingId of
        None \<Rightarrow> False
      | Some b \<Rightarrow>
         (case getEquipment st (b_equipmentId b) of
            None \<Rightarrow> False
          | Some e \<Rightarrow> b_status b = ''pending'' \<and> \<not> e_availability e))"

definition watchfulGateway :: env where
  "watchfulGateway =
     testEnv\<lparr>ordersCreate :=
       (\<lambda>st bookingId amount. if lockedAndPending st bookingId then Some ''order_1'' else None)\<rparr>"

definition pendingRow :: booking where
  "pendingRow = \<lparr>b_id = 1, b_equipmentId = 1, b_userId = 20, b_startDate = jan1, b_endDate = jan3,
     b_totalPrice = 1500, b_status = ''pending'', b_razorpayOrderId = None,
     b_razorpayPaymentId = None, b_isRated = False, b_createdAt = now0,
     b_lastStatusUpdate = now0\<rparr>"

text \<open>
  The store after a successful Create for the tractor (the booking awaits payment, the
  tractor is locked), and the same store once the booking is paid.
\<close>

definition heldDb :: db where
  "heldDb = \<lparr>equipmentTable = [tractor\<lparr>e_availability := False\<rparr>], bookings = [held],
     reviews = [], bookingsSeq = 1, reviewsSeq = 0, receipts = []\<rparr>"

definition paidRow :: booking where
  "paidRow = held\<lparr>b_status := ''paid'', b_razorpayPaymentId := Some ''pay_1''\<rparr>"

definition paidDb :: db where
  "paidDb = heldDb\<lparr>bookings := [paidRow]\<rparr>"

text \<open>
  Two webhook events. \<open>gatewayCaptured\<close> has the shape the gateway sends and
  payment.ts reads: the event name, and the payment entity with its notes.
  \<open>statusCaptured\<close> has the fields the event reader of routes.ts looks at. Their raw
  bodies are named by a short text, and signed with the environment's stand-in.
\<close>

definition gatewayCaptured :: whEvent where
  "gatewayCaptured =
     \<lparr>ev_event = Some ''payment.captured'',
      ev_payment = Some \<lparr>wp_status = None, wp_order_id = None, wp_id = None,
        wp_entity = Some \<lparr>en_order_id = ''order_1'', en_id = ''pay_1'',
          en_notes_bookingId = Some ''1'', en_error_description = []\<rparr>\<rparr>\<rparr>"

definition statusCaptured :: whEvent where
  "statusCaptured =
     \<lparr>ev_event = None,
      ev_payment = Some \<lparr>wp_status = Some ''captured'', wp_order_id = Some 1,
        wp_id = Some ''pay_1'', wp_entity = None\<rparr>\<rparr>"

definition signed :: "string \<Rightarrow> string option" where
  "signed rawBody = Some (hmacSha256Hex testEnv ''whsec'' rawBody)"

text \<open>
  A server with no webhook secret configured, and a request to the webhook route whose
  JSON body is an array of one string. The string is the JSON text of an event named
  \<open>payment.captured\<close> whose payment has status \<open>captured\<close>, \<open>order_id\<close> 1 and
  \<open>id\<close> \<open>pay_1\<close>; \<open>readEvent\<close> is \<open>JSON.parse\<close> at that text.
\<close>

definition noWebhookSecret :: env where
  "noWebhookSecret = testEnv\<lparr>RAZORPAY_WEBHOOK_SECRET := None\<rparr>"

definition quoted :: "string \<Rightarrow> string" where
  "quoted t = CHR 0x22 # t @ [CHR 0x22]"

definition capturedText :: string where
  "capturedText =
     ''{'' @ quoted ''event'' @ '':'' @ quoted ''payment.captured'' @ '','' @
       quoted ''payload'' @ '':{'' @ quoted ''payment'' @ '':{'' @
         quoted ''status'' @ '':'' @ quoted ''captured'' @ '','' @
         quoted ''order_id'' @ '':1,'' @
         quoted ''id'' @ '':'' @ quoted ''pay_1'' @ ''}}}''"

definition capturedEvent :: whEvent where
  "capturedEvent =
     \<lparr>ev_event = Some ''payment.captured'',
      ev_payment = Some \<lparr>wp_status = Some ''captured'', wp_order_id = Some 1,
        wp_id = Some ''pay_1'', wp_entity = None\<rparr>\<rparr>"

definition readEvent :: "string \<Rightarrow> whEvent option" where
  "readEvent t = (if t = capturedText then Some capturedEvent else None)"

definition capturedBody :: requestBody where
  "capturedBody = ArrayBody [capturedText]"

text \<open>
  A store for the review gate: renter 20 has rented the tractor twice and paid both
  times (booking 2 was created a day after booking 1), and has not rated either.
\<close>

definition earlierPaid :: booking where
  "earlierPaid = paidRow"

definition laterPaid :: booking where
  "laterPaid = paidRow\<lparr>b_id := 2, b_startDate := jan5, b_endDate := jan5, b_totalPrice := 500,
     b_createdAt := now0 + 86400000, b_lastStatusUpdate := now0 + 86400000\<rparr>"

definition twiceRentedDb :: db where
  "twiceRentedDb = heldDb\<lparr>bookings := [earlierPaid, laterPaid], bookingsSeq := 2\<rparr>"

definition goodReview :: reviewBody where
  "goodReview = \<lparr>w_equipmentId = Some 1, w_rating = Some 5,
     w_comment = Some ''Strong and reliable tractor''\<rparr>"

definition noEdit :: equipmentBody where
  "noEdit = \<lparr>q_ownerId = None, q_name = None, q_description = None, q_category = None,
     q_dailyRate = None, q_imageUrl = None, q_location = None, q_availability = None,
     q_specs = None, q_features = None\<rparr>"


section \<open>Availability ledger\<close>

lemma setUTCHours_start: "setUTCHours t 0 0 0 0 = timeClip (dayStartUTC t)"
  by (simp add: setUTCHours_def dayStartUTC_def mult.commute)

lemma setUTCHours_end: "setUTCHours t 23 59 59 999 = timeClip (dayEndUTC t)"
  by (simp add: setUTCHours_def dayEndUTC_def mult.commute)

lemma timeClip_Some: "timeClip t = Some u \<longleftrightarrow> (u = t \<and> \<bar>t\<bar> \<le> maxTime)"
  by (auto simp: timeClip_def)

lemma timeClip_None: "timeClip t = None \<longleftrightarrow> \<not> \<bar>t\<bar> \<le> maxTime"
  by (auto simp: timeClip_def)

text \<open>Every date the database accepts is a JavaScript time value.\<close>

lemma pgTimestampOk_timeClip: "pgTimestampOk t \<Longrightarrow> timeClip t = Some t"
  by (simp add: pgTimestampOk_def timeClip_def maxTime_def)

text \<open>
  When the database can answer the query, the rows returned are the bookings of the
  equipment that overlap the day range; when it cannot, or a date is invalid, no row is
  returned.
\<close>

lemma getBookingsByDateRange_queryable:
  assumes "queryable (Some a) (Some b)"
  shows "set (getBookingsByDateRange s eid (Some a) (Some b)) =
           {bk \<in> set (bookings s). b_equipmentId bk = eid \<and> overlapsDays bk a b}"
proof -
  from assms have ok: "pgTimestampOk (dayStartUTC a)" "pgTimestampOk (dayEndUTC b)"
    by (simp_all add: queryable_def)
  then show ?thesis
    by (auto simp: getBookingsByDateRange_def setUTCHours_start setUTCHours_end
        pgTimestampOk_timeClip overlapsDays_def)
qed

lemma getBookingsByDateRange_not_queryable:
  assumes "\<not> queryable startDate endDate"
  shows "getBookingsByDateRange s eid startDate endDate = []"
proof (cases startDate)
  case None
  then show ?thesis by (simp add: getBookingsByDateRange_def)
next
  case (Some a)
  note sd = this
  show ?thesis
  proof (cases endDate)
    case None
    with sd show ?thesis by (simp add: getBookingsByDateRange_def)
  next
    case (Some b)
    with sd assms have "\<not> (pgTimestampOk (dayStartUTC a) \<and> pgTimestampOk (dayEndUTC b))"
      by (simp add: queryable_def)
    with sd Some show ?thesis
      by (auto simp: getBookingsByDateRange_def setUTCHours_start setUTCHours_end timeClip_def
          split: option.splits)
  qed
qed

text \<open>
  On the dates the database accepts, \<open>checkEquipmentAvailability\<close> is the
  availability contract: it answers false when the equipment does not exist or its
  availability flag is false; otherwise it answers false exactly when some booking of
  that equipment overlaps the query range, taken at UTC day granularity, in one of the
  three ways (starts inside, ends inside, spans) and has status \<open>paid\<close> or
  \<open>awaiting_payment\<close>.
\<close>

lemma checkEquipmentAvailability_on_database_dates:
  assumes "queryable (Some a) (Some b)"
  shows "checkEquipmentAvailability s equipmentId (Some a) (Some b) \<longleftrightarrow>
     (\<exists>e. getEquipment s equipmentId = Some e \<and> e_availability e) \<and>
     \<not> (\<exists>bk \<in> set (bookings s). b_equipmentId bk = equipmentId \<and>
            overlapsDays bk a b \<and> holdsSlot bk)"
proof (cases "getEquipment s equipmentId")
  case None
  then show ?thesis by (simp add: checkEquipmentAvailability_def)
next
  case (Some e)
  have "list_ex (\<lambda>b. b_status b = ''paid'' \<or> b_status b = ''awaiting_payment'')
          (getBookingsByDateRange s equipmentId (Some a) (Some b)) \<longleftrightarrow>
        (\<exists>bk \<in> set (bookings s). b_equipmentId bk = equipmentId \<and>
            overlapsDays bk a b \<and> holdsSlot bk)"
    unfolding list_ex_iff getBookingsByDateRange_queryable[OF assms] holdsSlot_def by auto
  with Some show ?thesis
    by (simp add: checkEquipmentAvailability_def Let_def)
qed

text \<open>
  On any other pair of dates the bookings play no part: the answer is the availability
  flag of the equipment.
\<close>

lemma checkEquipmentAvailability_query_error:
  assumes "\<not> queryable startDate endDate"
  shows "checkEquipmentAvailability s equipmentId startDate endDate \<longleftrightarrow>
     (\<exists>e. getEquipment s equipmentId = Some e \<and> e_availability e)"
  by (cases "getEquipment s equipmentId")
     (simp_all add: checkEquipmentAvailability_def getBookingsByDateRange_not_queryable[OF assms])

lemma dayStartUTC_jan2: "dayStartUTC jan2 = 1704153600000"
  by (simp add: dayStartUTC_def jan2_def msPerDay_def)

lemma dayEndUTC_year10000: "dayEndUTC year10000 = 253402387199999"
  by (simp add: dayEndUTC_def year10000_def msPerDay_def)

lemma dayEndUTC_before_year10000: "dayEndUTC (year10000 - 1) = 253402300799999"
  by (simp add: dayEndUTC_def year10000_def msPerDay_def)

lemma queryable_jan2_year10000: "\<not> queryable (Some jan2) (Some year10000)"
  by (simp add: queryable_def dayEndUTC_year10000 pgTimestampOk_def)

lemma queryable_jan2_before_year10000: "queryable (Some jan2) (Some (year10000 - 1))"
  by (simp add: queryable_def dayStartUTC_jan2 dayEndUTC_before_year10000 pgTimestampOk_def)

lemma held_overlaps_jan2_onwards:
  "overlapsDays held jan2 year10000" "overlapsDays held jan2 (year10000 - 1)"
  by (simp_all add: overlapsDays_def dayStartUTC_jan2 dayEndUTC_year10000
      dayEndUTC_before_year10000 held_def jan1_def jan3_def)

text \<open>
  Claim C1, evaluated. The tractor is listed as available and booking 1 holds it from
  2024-01-01 to 2024-01-03, awaiting payment. A query from 2024-01-02 to
  10000-01-01T00:00:00.000Z overlaps that booking, and the check answers that the
  tractor is available: the end of the range is not a date the database accepts, the
  query throws, and \<open>getBookingsByDateRange\<close> returns no booking. One millisecond
  earlier the end date is accepted and the check answers that the tractor is not
  available.
\<close>

theorem checkEquipmentAvailability_overlooks_booking_on_query_error:
  "getEquipment heldAndListed 1 = Some tractor \<and> e_availability tractor \<and>
   bookings heldAndListed = [held] \<and> b_equipmentId held = 1 \<and>
   b_status held = ''awaiting_payment'' \<and> holdsSlot held \<and>
   overlapsDays held jan2 year10000 \<and>
   getBookingsByDateRange heldAndListed 1 (Some jan2) (Some year10000) = [] \<and>
   checkEquipmentAvailability heldAndListed 1 (Some jan2) (Some year10000) \<and>
   getBookingsByDateRange heldAndListed 1 (Some jan2) (Some (year10000 - 1)) = [held] \<and>
   \<not> checkEquipmentAvailability heldAndListed 1 (Some jan2) (Some (year10000 - 1))"
proof -
  have e: "getEquipment heldAndListed 1 = Some tractor \<and> e_availability tractor"
    by (simp add: heldAndListed_def emptyDb_def getEquipment_def tractor_def)
  have b: "bookings heldAndListed = [held] \<and> b_equipmentId held = 1 \<and>
      b_status held = ''awaiting_payment'' \<and> holdsSlot held"
    by (simp add: heldAndListed_def emptyDb_def held_def holdsSlot_def)
  have q1: "getBookingsByDateRange heldAndListed 1 (Some jan2) (Some year10000) = []"
    by (rule getBookingsByDateRange_not_queryable[OF queryable_jan2_year10000])
  have c1: "checkEquipmentAvailability heldAndListed 1 (Some jan2) (Some year10000)"
    using e by (simp add: checkEquipmentAvailability_query_error[OF queryable_jan2_year10000])
  have q2: "getBookingsByDateRange heldAndListed 1 (Some jan2) (Some (year10000 - 1)) = [held]"
    by (simp add: getBookingsByDateRange_def setUTCHours_start setUTCHours_end
        dayStartUTC_jan2 dayEndUTC_before_year10000 timeClip_def maxTime_def pgTimestampOk_def
        heldAndListed_def emptyDb_def held_def jan1_def jan3_def)
  have c2: "\<not> checkEquipmentAvailability heldAndListed 1 (Some jan2) (Some (year10000 - 1))"
    using e b by (simp add: checkEquipmentAvailability_def q2)
  from e b held_overlaps_jan2_onwards(1) q1 c1 q2 c2 show ?thesis by blast
qed

section \<open>Facts about the storage writes\<close>

lemma find_map_same:
  assumes "\<And>x. P (f x) = P x"
  shows "find P (map (\<lambda>x. if P x then f x else x) xs) = map_option f (find P xs)"
  using assms by (induction xs) auto

lemma e_id_setEquipment [simp]: "e_id (setEquipment data e) = e_id e"
  by (simp add: setEquipment_def)

lemma b_id_setBooking [simp]: "b_id (setBooking data now b) = b_id b"
  by (simp add: setBooking_def)

lemma find_updated_equipment:
  "find (\<lambda>e. e_id e = eid) (map (\<lambda>e. if e_id e = eid then setEquipment data e else e) xs) =
     map_option (setEquipment data) (find (\<lambda>e. e_id e = eid) xs)"
  by (rule find_map_same) simp

lemma find_updated_booking:
  "find (\<lambda>b. b_id b = bid) (map (\<lambda>b. if b_id b = bid then setBooking data now b else b) xs) =
     map_option (setBooking data now) (find (\<lambda>b. b_id b = bid) xs)"
  by (rule find_map_same) simp

lemma updateEquipment_found:
  assumes "getEquipment s eid = Some e" "data \<noteq> noPatch"
  shows "updateEquipment s eid data =
           Inr (setEquipment data e,
                s\<lparr>equipmentTable :=
                    map (\<lambda>x. if e_id x = eid then setEquipment data x else x) (equipmentTable s)\<rparr>)"
  using assms
  by (simp add: updateEquipment_def getEquipment_def find_updated_equipment Let_def)

lemma updateEquipment_missing:
  assumes "getEquipment s eid = None"
  shows "updateEquipment s eid data = Inl (Thrown ''Failed to update equipment'')"
  using assms
  by (simp add: updateEquipment_def getEquipment_def find_updated_equipment Let_def)

lemma updateBooking_found:
  assumes "getBooking s bid = Some b"
  shows "updateBooking s now bid data =
           Inr (setBooking data now b,
                s\<lparr>bookings :=
                    map (\<lambda>x. if b_id x = bid then setBooking data now x else x) (bookings s)\<rparr>)"
  using assms
  by (simp add: updateBooking_def getBooking_def find_updated_booking Let_def)

lemma updateBooking_missing:
  assumes "getBooking s bid = None"
  shows "updateBooking s now bid data = Inl (Thrown ''Failed to update booking'')"
  using assms
  by (simp add: updateBooking_def getBooking_def find_updated_booking Let_def)

lemma lock_neq [simp]: "noPatch\<lparr>p_availability := Some v\<rparr> \<noteq> noPatch"
  by (simp add: noPatch_def)

lemma setEquipment_availability:
  "setEquipment (noPatch\<lparr>p_availability := Some v\<rparr>) e = e\<lparr>e_availability := v\<rparr>"
  by (simp add: setEquipment_def noPatch_def orElse_def)

lemma getEquipment_after_update:
  "getEquipment (s\<lparr>equipmentTable :=
       map (\<lambda>x. if e_id x = eid then setEquipment data x else x) (equipmentTable s)\<rparr>) eid =
     map_option (setEquipment data) (getEquipment s eid)"
  by (simp add: getEquipment_def find_updated_equipment)

lemma getBooking_after_update:
  "getBooking (s\<lparr>bookings :=
       map (\<lambda>x. if b_id x = bid then setBooking data now x else x) (bookings s)\<rparr>) bid =
     map_option (setBooking data now) (getBooking s bid)"
  by (simp add: getBooking_def find_updated_booking)

lemma getEquipment_bookings_upd [simp]: "getEquipment (s\<lparr>bookings := bs\<rparr>) eid = getEquipment s eid"
  by (simp add: getEquipment_def)

lemma getBooking_equipment_upd [simp]: "getBooking (s\<lparr>equipmentTable := es\<rparr>) bid = getBooking s bid"
  by (simp add: getBooking_def)

lemma find_append_last:
  "P x \<Longrightarrow> find P (xs @ [x]) = (case find P xs of None \<Rightarrow> Some x | Some y \<Rightarrow> Some y)"
  by (induction xs) auto


section \<open>Booking creation\<close>

lemma admitBooking_Inr:
  assumes "admitBooking s now user body = Inr (bk, equip, amt, s1)"
  shows "\<exists>u sd ed. user = Some u \<and> k_equipmentId body = Some (b_equipmentId bk) \<and>
           k_startDate body = Some sd \<and> k_endDate body = Some ed \<and>
           getEquipment s (b_equipmentId bk) = Some equip \<and> e_availability equip \<and>
           checkEquipmentAvailability s (b_equipmentId bk) (Some sd) (Some ed) \<and>
           pgTimestampOk sd \<and> pgTimestampOk ed \<and> int32Ok amt \<and>
           amt = e_dailyRate equip * totalDays sd ed \<and>
           bk = \<lparr>b_id = bookingsSeq s + 1, b_equipmentId = b_equipmentId bk, b_userId = su_id u,
                  b_startDate = sd, b_endDate = ed, b_totalPrice = amt, b_status = ''pending'',
                  b_razorpayOrderId = k_razorpayOrderId body,
                  b_razorpayPaymentId = k_razorpayPaymentId body, b_isRated = False,
                  b_createdAt = now, b_lastStatusUpdate = now\<rparr> \<and>
           s1 = s\<lparr>bookings := bookings s @ [bk], bookingsSeq := bookingsSeq s + 1\<rparr>"
  using assms
  by (auto simp: admitBooking_def createBooking_def Let_def
      split: option.splits if_splits sum.splits)

lemma getEquipment_after_insert [simp]:
  "getEquipment (s\<lparr>bookings := bs, bookingsSeq := n\<rparr>) eid = getEquipment s eid"
  by (simp add: getEquipment_def)

lemma setBooking_status:
  "setBooking (noBookingPatch\<lparr>u_status := Some st\<rparr>) now b =
     b\<lparr>b_status := st, b_lastStatusUpdate := now\<rparr>"
  by (simp add: setBooking_def noBookingPatch_def orElse_def)

lemma setBooking_order:
  "setBooking (noBookingPatch\<lparr>u_status := Some st, u_razorpayOrderId := Some oid\<rparr>) now b =
     b\<lparr>b_status := st, b_razorpayOrderId := Some oid, b_lastStatusUpdate := now\<rparr>"
  by (simp add: setBooking_def noBookingPatch_def orElse_def)

lemma setBooking_paid:
  "setBooking (noBookingPatch\<lparr>u_status := Some st, u_razorpayPaymentId := Some pid\<rparr>) now b =
     b\<lparr>b_status := st, b_razorpayPaymentId := Some pid, b_lastStatusUpdate := now\<rparr>"
  by (simp add: setBooking_def noBookingPatch_def orElse_def)

lemma setBooking_rated:
  "setBooking (noBookingPatch\<lparr>u_isRated := Some v\<rparr>) now b =
     b\<lparr>b_isRated := v, b_lastStatusUpdate := now\<rparr>"
  by (simp add: setBooking_def noBookingPatch_def orElse_def)

lemma updateBooking_member:
  assumes "b \<in> set (bookings s)" "b_id b = bid"
  shows "\<exists>r. updateBooking s now bid data =
           Inr (r, s\<lparr>bookings :=
                   map (\<lambda>x. if b_id x = bid then setBooking data now x else x) (bookings s)\<rparr>) \<and>
              b_id r = bid \<and> r \<in> setBooking data now ` set (bookings s)"
proof -
  from assms obtain b0 where f: "getBooking s bid = Some b0"
    by (cases "getBooking s bid") (auto simp: getBooking_def find_None_iff)
  then have "b0 \<in> set (bookings s)" "b_id b0 = bid"
    by (auto simp: getBooking_def find_Some_iff)
  with updateBooking_found[OF f] show ?thesis by auto
qed

text \<open>The state in which the gateway is asked for an order, and what the route does next.\<close>

lemma postBookings_admitted:
  assumes adm: "admitBooking s now user body = Inr (bk, equip, amt, s1)"
  shows "\<exists>s2. lockEquipment s1 (b_equipmentId bk) = Inr (equip\<lparr>e_availability := False\<rparr>, s2) \<and>
           s2 = s1\<lparr>equipmentTable :=
                   map (\<lambda>x. if e_id x = b_equipmentId bk
                             then setEquipment (noPatch\<lparr>p_availability := Some False\<rparr>) x else x)
                     (equipmentTable s1)\<rparr> \<and>
           postBookings ev s now user body =
             (case orderAndRecord ev s2 now bk amt of
                Inr ok \<Rightarrow> ok
              | Inl (paymentError, sx) \<Rightarrow> paymentErrorHandler sx now (b_equipmentId bk) (b_id bk))"
proof -
  from admitBooking_Inr[OF adm] obtain u sd ed where
    e: "getEquipment s (b_equipmentId bk) = Some equip" and
    s1: "s1 = s\<lparr>bookings := bookings s @ [bk], bookingsSeq := bookingsSeq s + 1\<rparr>"
    by blast
  from e s1 have "getEquipment s1 (b_equipmentId bk) = Some equip" by simp
  from updateEquipment_found[OF this lock_neq, of False] adm show ?thesis
    by (simp add: postBookings_def lockAndOrder_def lockEquipment_def setEquipment_availability)
qed

lemma payment_failure_path:
  assumes adm: "admitBooking s now user body = Inr (bk, equip, amt, s1)"
      and lock: "lockEquipment s1 (b_equipmentId bk) = Inr (locked, s2)"
      and fail: "createPaymentSession ev s2 (b_id bk) amt = Inl err"
  shows "locked = equip\<lparr>e_availability := False\<rparr> \<and>
         getEquipment s2 (b_equipmentId bk) = Some locked \<and>
         bookings s2 = bookings s @ [bk] \<and>
         (\<exists>s'. postBookings ev s now user body =
                 ((400, ErrorJson ''Payment order creation failed''), s') \<and>
              getEquipment s' (b_equipmentId bk) = Some equip \<and>
              length (bookings s') = Suc (length (bookings s)) \<and>
              last (bookings s') = bk\<lparr>b_status := ''payment_failed'', b_lastStatusUpdate := now\<rparr>)"
proof -
  from admitBooking_Inr[OF adm] obtain u sd ed where
    e: "getEquipment s (b_equipmentId bk) = Some equip" and av: "e_availability equip" and
    s1: "s1 = s\<lparr>bookings := bookings s @ [bk], bookingsSeq := bookingsSeq s + 1\<rparr>"
    by blast
  from postBookings_admitted[OF adm, of ev] lock have
    lk: "locked = equip\<lparr>e_availability := False\<rparr>" and
    s2: "s2 = s1\<lparr>equipmentTable :=
                   map (\<lambda>x. if e_id x = b_equipmentId bk
                             then setEquipment (noPatch\<lparr>p_availability := Some False\<rparr>) x else x)
                     (equipmentTable s1)\<rparr>" and
    post: "postBookings ev s now user body =
             (case orderAndRecord ev s2 now bk amt of
                Inr ok \<Rightarrow> ok
              | Inl (paymentError, sx) \<Rightarrow> paymentErrorHandler sx now (b_equipmentId bk) (b_id bk))"
    by auto
  have oar: "orderAndRecord ev s2 now bk amt = Inl (err, s2)"
    using fail by (simp add: orderAndRecord_def)
  have g2: "getEquipment s2 (b_equipmentId bk) = Some (equip\<lparr>e_availability := False\<rparr>)"
    using e unfolding s2 s1
    by (simp add: getEquipment_def find_updated_equipment setEquipment_availability)
  define s3 where "s3 = s2\<lparr>equipmentTable :=
       map (\<lambda>x. if e_id x = b_equipmentId bk
                 then setEquipment (noPatch\<lparr>p_availability := Some True\<rparr>) x else x)
         (equipmentTable s2)\<rparr>"
  have rel: "updateEquipment s2 (b_equipmentId bk) (noPatch\<lparr>p_availability := Some True\<rparr>) =
               Inr (equip, s3)"
    using updateEquipment_found[OF g2 lock_neq, of True] av
    by (simp add: setEquipment_availability s3_def)
  have g3: "getEquipment s3 (b_equipmentId bk) = Some equip"
    using g2 av unfolding s3_def
    by (simp add: getEquipment_def find_updated_equipment setEquipment_availability)
  have bs3: "bookings s3 = bookings s @ [bk]"
    by (simp add: s3_def s2 s1)
  then have mem: "bk \<in> set (bookings s3)" by simp
  from updateBooking_member[OF mem refl, of now "noBookingPatch\<lparr>u_status := Some ''payment_failed''\<rparr>"]
  obtain r where
    ub: "updateBooking s3 now (b_id bk) (noBookingPatch\<lparr>u_status := Some ''payment_failed''\<rparr>) =
           Inr (r, s3\<lparr>bookings :=
                   map (\<lambda>x. if b_id x = b_id bk
                             then setBooking (noBookingPatch\<lparr>u_status := Some ''payment_failed''\<rparr>) now x
                             else x) (bookings s3)\<rparr>)"
    by blast
  let ?s' = "s3\<lparr>bookings :=
                   map (\<lambda>x. if b_id x = b_id bk
                             then setBooking (noBookingPatch\<lparr>u_status := Some ''payment_failed''\<rparr>) now x
                             else x) (bookings s3)\<rparr>"
  have "postBookings ev s now user body = ((400, ErrorJson ''Payment order creation failed''), ?s')"
    using post oar rel ub by (simp add: paymentErrorHandler_def)
  moreover have "getEquipment ?s' (b_equipmentId bk) = Some equip"
    using g3 by simp
  moreover have "length (bookings ?s') = Suc (length (bookings s))"
    by (simp add: bs3)
  moreover have "last (bookings ?s') = bk\<lparr>b_status := ''payment_failed'', b_lastStatusUpdate := now\<rparr>"
    by (simp add: bs3 setBooking_status)
  moreover have "bookings s2 = bookings s @ [bk]"
    by (simp add: s2 s1)
  ultimately show ?thesis using lk g2 by blast
qed

lemma admitBooking_admissible:
  "(\<exists>x. admitBooking s now user body = Inr x) \<longleftrightarrow> admissible s user body \<and> storable s body"
  by (auto simp: admitBooking_def admissible_def storable_def createBooking_def Let_def
      checkEquipmentAvailability_def split: option.splits if_splits)

lemma admitBooking_refused:
  "admitBooking s now user body = Inl r \<Longrightarrow> fst r \<noteq> 201"
  by (auto simp: admitBooking_def Let_def split: option.splits if_splits sum.splits)

lemma paymentErrorHandler_status: "fst (fst (paymentErrorHandler s now eid bid)) \<noteq> 201"
  by (auto simp: paymentErrorHandler_def split: sum.splits)

lemma payment_success_path:
  assumes adm: "admitBooking s now user body = Inr (bk, equip, amt, s1)"
      and lock: "lockEquipment s1 (b_equipmentId bk) = Inr (locked, s2)"
      and ok: "createPaymentSession ev s2 (b_id bk) amt = Inr cfg"
  shows "\<exists>ub s3. postBookings ev s now user body = ((201, BookingCreatedJson ub cfg), s3) \<and>
              b_id ub = b_id bk \<and> b_status ub = ''awaiting_payment'' \<and>
              b_razorpayOrderId ub = Some (c_id cfg) \<and>
              getEquipment s3 (b_equipmentId bk) = Some (equip\<lparr>e_availability := False\<rparr>) \<and>
              length (bookings s3) = Suc (length (bookings s)) \<and>
              last (bookings s3) =
                bk\<lparr>b_status := ''awaiting_payment'', b_razorpayOrderId := Some (c_id cfg),
                   b_lastStatusUpdate := now\<rparr>"
proof -
  from admitBooking_Inr[OF adm] obtain u sd ed where
    e: "getEquipment s (b_equipmentId bk) = Some equip" and
    s1: "s1 = s\<lparr>bookings := bookings s @ [bk], bookingsSeq := bookingsSeq s + 1\<rparr>"
    by blast
  from postBookings_admitted[OF adm, of ev] lock have
    s2: "s2 = s1\<lparr>equipmentTable :=
                   map (\<lambda>x. if e_id x = b_equipmentId bk
                             then setEquipment (noPatch\<lparr>p_availability := Some False\<rparr>) x else x)
                     (equipmentTable s1)\<rparr>" and
    post: "postBookings ev s now user body =
             (case orderAndRecord ev s2 now bk amt of
                Inr ok \<Rightarrow> ok
              | Inl (paymentError, sx) \<Rightarrow> paymentErrorHandler sx now (b_equipmentId bk) (b_id bk))"
    by auto
  have g2: "getEquipment s2 (b_equipmentId bk) = Some (equip\<lparr>e_availability := False\<rparr>)"
    using e unfolding s2 s1
    by (simp add: getEquipment_def find_updated_equipment setEquipment_availability)
  have bs2: "bookings s2 = bookings s @ [bk]"
    by (simp add: s2 s1)
  then have mem: "bk \<in> set (bookings s2)" by simp
  let ?p = "noBookingPatch\<lparr>u_status := Some ''awaiting_payment'',
                           u_razorpayOrderId := Some (c_id cfg)\<rparr>"
  let ?s3 = "s2\<lparr>bookings :=
                 map (\<lambda>x. if b_id x = b_id bk then setBooking ?p now x else x) (bookings s2)\<rparr>"
  from updateBooking_member[OF mem refl, of now ?p]
  obtain r where
    ub: "updateBooking s2 now (b_id bk) ?p = Inr (r, ?s3)" and rid: "b_id r = b_id bk" and
    rin: "r \<in> setBooking ?p now ` set (bookings s2)"
    by blast
  have "postBookings ev s now user body = ((201, BookingCreatedJson r cfg), ?s3)"
    using post ok ub by (simp add: orderAndRecord_def)
  moreover from rin have "b_status r = ''awaiting_payment''" "b_razorpayOrderId r = Some (c_id cfg)"
    by (auto simp: setBooking_order)
  moreover have "getEquipment ?s3 (b_equipmentId bk) = Some (equip\<lparr>e_availability := False\<rparr>)"
    using g2 by simp
  moreover have "length (bookings ?s3) = Suc (length (bookings s))"
    by (simp add: bs2)
  moreover have "last (bookings ?s3) =
      bk\<lparr>b_status := ''awaiting_payment'', b_razorpayOrderId := Some (c_id cfg),
         b_lastStatusUpdate := now\<rparr>"
    by (simp add: bs2 setBooking_order)
  ultimately show ?thesis using rid by blast
qed

lemma postBookings_created_only_if_admitted:
  assumes "fst (fst (postBookings ev s now user body)) = 201"
  shows "admissible s user body \<and> storable s body"
proof (cases "admitBooking s now user body")
  case (Inl r)
  with assms admitBooking_refused[OF Inl] show ?thesis
    by (simp add: postBookings_def)
next
  case (Inr x)
  then show ?thesis using admitBooking_admissible by blast
qed

lemma lockEquipment_admitted:
  assumes adm: "admitBooking s now user body = Inr (bk, equip, amt, s1)"
  shows "\<exists>s2. lockEquipment s1 (b_equipmentId bk) = Inr (equip\<lparr>e_availability := False\<rparr>, s2)"
  using postBookings_admitted[OF adm] by blast

lemma ceilDiv_real: "ceilDiv x y = \<lceil>real_of_int x / real_of_int y\<rceil>"
  by (simp add: ceilDiv_def ceiling_divide_eq_div)

lemma totalDays_forward:
  assumes "sd \<le> ed"
  shows "totalDays sd ed = \<lceil>real_of_int (ed - sd) / real_of_int msPerDay\<rceil> + 1"
proof -
  have "0 \<le> real_of_int (ed - sd) / real_of_int msPerDay"
    using assms by (simp add: msPerDay_def)
  then have "0 \<le> \<lceil>real_of_int (ed - sd) / real_of_int msPerDay\<rceil>"
    by (simp add: ceiling_le_iff le_ceiling_iff)
  moreover have "totalDays sd ed = max 1 (\<lceil>real_of_int (ed - sd) / real_of_int msPerDay\<rceil> + 1)"
    unfolding totalDays_def ceilDiv_real by (simp add: msPerDay_def)
  ultimately show ?thesis by simp
qed

lemma admit_janRequest:
  "admitBooking emptyDb now0 (Some renter) janRequest =
     Inr (pendingRow, tractor, 1500,
          emptyDb\<lparr>bookings := [pendingRow], bookingsSeq := 1\<rparr>)"
  by (simp add: admitBooking_def janRequest_def emptyDb_def getEquipment_def tractor_def
      checkEquipmentAvailability_def getBookingsByDateRange_def setUTCHours_def timeClip_def
      maxTime_def msPerDay_def jan1_def jan3_def totalDays_def ceilDiv_def createBooking_def
      pgTimestampOk_def int32Ok_def renter_def pendingRow_def Let_def)

text \<open>
  A Create request whose end date is beyond the dates the database accepts passes
  the availability check although booking 1 holds the tractor on its first days, and
  fails only at the insert; with the end date one millisecond earlier it is refused as
  not available.
\<close>

lemma far_request_passes_the_check:
  "postBookings testEnv heldAndListed now0 (Some renter) farRequest =
     ((500, ErrorJson ''Failed to process booking''), heldAndListed) \<and>
   postBookings testEnv heldAndListed now0 (Some renter)
       (farRequest\<lparr>k_endDate := Some (year10000 - 1)\<rparr>) =
     ((400, ErrorJson ''Equipment is no longer available for these dates''), heldAndListed)"
proof -
  have e: "getEquipment heldAndListed 1 = Some tractor" "e_availability tractor"
    by (simp_all add: heldAndListed_def emptyDb_def getEquipment_def tractor_def)
  have c1: "checkEquipmentAvailability heldAndListed 1 (Some jan2) (Some year10000)"
    using e by (simp add: checkEquipmentAvailability_query_error[OF queryable_jan2_year10000])
  have "\<exists>bk \<in> set (bookings heldAndListed). b_equipmentId bk = 1 \<and>
          overlapsDays bk jan2 (year10000 - 1) \<and> holdsSlot bk"
    using held_overlaps_jan2_onwards(2)
    by (simp add: heldAndListed_def emptyDb_def holdsSlot_def held_def)
  then have c2: "\<not> checkEquipmentAvailability heldAndListed 1 (Some jan2) (Some (year10000 - 1))"
    by (simp add: checkEquipmentAvailability_on_database_dates[OF queryable_jan2_before_year10000])
  have far: "\<not> pgTimestampOk year10000"
    by (simp add: pgTimestampOk_def year10000_def)
  from e c1 far have "admitBooking heldAndListed now0 (Some renter) farRequest =
      Inl (500, ErrorJson ''Failed to process booking'')"
    by (simp add: admitBooking_def farRequest_def createBooking_def Let_def)
  moreover from e c2 have "admitBooking heldAndListed now0 (Some renter)
      (farRequest\<lparr>k_endDate := Some (year10000 - 1)\<rparr>) =
      Inl (400, ErrorJson ''Equipment is no longer available for these dates'')"
    by (simp add: admitBooking_def farRequest_def Let_def)
  ultimately show ?thesis by (simp add: postBookings_def)
qed

lemma lock_janRequest:
  "lockEquipment (emptyDb\<lparr>bookings := [pendingRow], bookingsSeq := 1\<rparr>) (b_equipmentId pendingRow) =
     Inr (tractor\<lparr>e_availability := False\<rparr>,
          emptyDb\<lparr>equipmentTable := [tractor\<lparr>e_availability := False\<rparr>],
                  bookings := [pendingRow], bookingsSeq := 1\<rparr>)"
  by (simp add: lockEquipment_def updateEquipment_def getEquipment_def emptyDb_def pendingRow_def
      tractor_def setEquipment_def noPatch_def orElse_def Let_def)

text \<open>
  Claim C5. A Create request has been admitted, the route has locked the equipment,
  and the gateway, asked in the store in which the availability flag is false and the
  booking row is the last row, fails to create the payment order. Then the route
  answers 400; the equipment row, which carried the flag false when the order failed,
  is again the row read at admission, whose flag is true; and the booking row is still
  in the table, last, with status \<open>payment_failed\<close>.
\<close>

theorem order_failure_is_compensated:
  assumes "admitBooking s now user body = Inr (bk, equip, amt, s1)"
      and "lockEquipment s1 (b_equipmentId bk) = Inr (locked, s2)"
      and "createPaymentSession ev s2 (b_id bk) amt = Inl err"
  shows "e_availability equip \<and> \<not> e_availability locked \<and>
         locked = equip\<lparr>e_availability := False\<rparr> \<and>
         getEquipment s2 (b_equipmentId bk) = Some locked \<and>
         bookings s2 = bookings s @ [bk] \<and> b_status bk = ''pending'' \<and>
         (\<exists>s'. postBookings ev s now user body =
                 ((400, ErrorJson ''Payment order creation failed''), s') \<and>
              getEquipment s' (b_equipmentId bk) = Some equip \<and>
              getEquipment s' (b_equipmentId bk) = Some (locked\<lparr>e_availability := True\<rparr>) \<and>
              length (bookings s') = Suc (length (bookings s)) \<and>
              last (bookings s') = bk\<lparr>b_status := ''payment_failed'', b_lastStatusUpdate := now\<rparr>)"
proof -
  from admitBooking_Inr[OF assms(1)] have av: "e_availability equip" by blast
  from admitBooking_Inr[OF assms(1)] have st: "b_status bk = ''pending''"
    by (metis booking.select_convs(7))
  from payment_failure_path[OF assms] have
    lk: "locked = equip\<lparr>e_availability := False\<rparr>" and
    g2: "getEquipment s2 (b_equipmentId bk) = Some locked" and
    b2: "bookings s2 = bookings s @ [bk]" and
    fin: "\<exists>s'. postBookings ev s now user body =
                 ((400, ErrorJson ''Payment order creation failed''), s') \<and>
              getEquipment s' (b_equipmentId bk) = Some equip \<and>
              length (bookings s') = Suc (length (bookings s)) \<and>
              last (bookings s') = bk\<lparr>b_status := ''payment_failed'', b_lastStatusUpdate := now\<rparr>"
    by blast+
  from lk av have restored: "locked\<lparr>e_availability := True\<rparr> = equip" by simp
  from lk have nl: "\<not> e_availability locked" by simp
  from av nl lk g2 b2 st fin restored show ?thesis by auto
qed

theorem order_failure_is_compensated_witness:
  "e_availability tractor \<and> \<not> e_availability (tractor\<lparr>e_availability := False\<rparr>) \<and>
   getEquipment (emptyDb\<lparr>equipmentTable := [tractor\<lparr>e_availability := False\<rparr>],
                         bookings := [pendingRow], bookingsSeq := 1\<rparr>) 1 =
     Some (tractor\<lparr>e_availability := False\<rparr>) \<and>
   (\<exists>s'. postBookings gatewayDown emptyDb now0 (Some renter) janRequest =
           ((400, ErrorJson ''Payment order creation failed''), s') \<and>
         getEquipment s' 1 = Some tractor \<and>
         length (bookings s') = 1 \<and>
         last (bookings s') = pendingRow\<lparr>b_status := ''payment_failed''\<rparr>)"
proof -
  have fail: "createPaymentSession gatewayDown
                (emptyDb\<lparr>equipmentTable := [tractor\<lparr>e_availability := False\<rparr>],
                         bookings := [pendingRow], bookingsSeq := 1\<rparr>)
                (b_id pendingRow) 1500 =
                Inl (Thrown ''Razorpay order creation rejected'')"
    by (simp add: createPaymentSession_def gatewayDown_def testEnv_def)
  from order_failure_is_compensated[OF admit_janRequest lock_janRequest fail]
  obtain s' where
    "postBookings gatewayDown emptyDb now0 (Some renter) janRequest =
       ((400, ErrorJson ''Payment order creation failed''), s')"
    "getEquipment s' (b_equipmentId pendingRow) = Some tractor"
    "length (bookings s') = Suc (length (bookings emptyDb))"
    "last (bookings s') = pendingRow\<lparr>b_status := ''payment_failed'', b_lastStatusUpdate := now0\<rparr>"
    by blast
  then have "\<exists>s'. postBookings gatewayDown emptyDb now0 (Some renter) janRequest =
           ((400, ErrorJson ''Payment order creation failed''), s') \<and>
         getEquipment s' 1 = Some tractor \<and>
         length (bookings s') = 1 \<and>
         last (bookings s') = pendingRow\<lparr>b_status := ''payment_failed''\<rparr>"
    by (simp add: pendingRow_def emptyDb_def)
  moreover have "e_availability tractor \<and> \<not> e_availability (tractor\<lparr>e_availability := False\<rparr>) \<and>
   getEquipment (emptyDb\<lparr>equipmentTable := [tractor\<lparr>e_availability := False\<rparr>],
                         bookings := [pendingRow], bookingsSeq := 1\<rparr>) 1 =
     Some (tractor\<lparr>e_availability := False\<rparr>)"
    by (simp add: tractor_def getEquipment_def emptyDb_def)
  ultimately show ?thesis by blast
qed

lemma postBookings_last_price:
  assumes adm: "admitBooking s now user body = Inr (bk, equip, amt, s1)"
  shows "b_totalPrice (last (bookings (snd (postBookings ev s now user body)))) = b_totalPrice bk"
proof -
  from lockEquipment_admitted[OF adm] obtain s2 where
    lock: "lockEquipment s1 (b_equipmentId bk) = Inr (equip\<lparr>e_availability := False\<rparr>, s2)"
    by blast
  show ?thesis
  proof (cases "createPaymentSession ev s2 (b_id bk) amt")
    case (Inl err)
    from payment_failure_path[OF adm lock Inl] show ?thesis by auto
  next
    case (Inr cfg)
    from payment_success_path[OF adm lock Inr] show ?thesis by auto
  qed
qed

text \<open>
  Claim C8. For a booking created with a start date not after its end date, the total
  price stored in the row (and charged) is the daily rate times the number of days,
  where days is the ceiling of (end - start) / one day, plus one; the route never
  changes that price afterwards. From 2024-01-01 to 2024-01-03 at a daily rate of 500
  the total is 1500.
\<close>

theorem totalPrice_is_rate_times_inclusive_days:
  assumes "admitBooking s now user body = Inr (bk, equip, amt, s1)"
      and "b_startDate bk \<le> b_endDate bk"
  shows "k_startDate body = Some (b_startDate bk) \<and> k_endDate body = Some (b_endDate bk) \<and>
         b_totalPrice bk =
           e_dailyRate equip *
             (\<lceil>real_of_int (b_endDate bk - b_startDate bk) / real_of_int msPerDay\<rceil> + 1) \<and>
         amt = b_totalPrice bk \<and>
         b_totalPrice (last (bookings (snd (postBookings ev s now user body)))) = b_totalPrice bk"
proof -
  from admitBooking_Inr[OF assms(1)] obtain u sd ed where
    sd: "k_startDate body = Some sd" and ed: "k_endDate body = Some ed" and
    amt: "amt = e_dailyRate equip * totalDays sd ed" and
    bk: "b_startDate bk = sd" "b_endDate bk = ed" "b_totalPrice bk = amt"
    by (metis booking.select_convs(4,5,6))
  from assms(2) bk have "sd \<le> ed" by simp
  from totalDays_forward[OF this] sd ed amt bk postBookings_last_price[OF assms(1), of ev]
  show ?thesis by simp
qed

theorem totalPrice_is_rate_times_inclusive_days_witness:
  "admitBooking emptyDb now0 (Some renter) janRequest =
     Inr (pendingRow, tractor, 1500, emptyDb\<lparr>bookings := [pendingRow], bookingsSeq := 1\<rparr>) \<and>
   e_dailyRate tractor = 500 \<and> b_startDate pendingRow = 1704067200000 \<and>
   b_endDate pendingRow = 1704240000000 \<and>
   e_dailyRate tractor * (\<lceil>real_of_int (1704240000000 - 1704067200000) / real_of_int msPerDay\<rceil> + 1)
     = 1500 \<and>
   b_totalPrice (last (bookings (snd (postBookings testEnv emptyDb now0 (Some renter) janRequest))))
     = 1500"
proof -
  have ord: "b_startDate pendingRow \<le> b_endDate pendingRow"
    by (simp add: pendingRow_def jan1_def jan3_def)
  from totalPrice_is_rate_times_inclusive_days[OF admit_janRequest ord, of testEnv]
  show ?thesis
    using admit_janRequest
    by (simp add: pendingRow_def tractor_def jan1_def jan3_def)
qed


section \<open>Admission\<close>

lemma lockedDb_janRequest:
  "getEquipment (emptyDb\<lparr>equipmentTable := [tractor\<lparr>e_availability := False\<rparr>],
                         bookings := [pendingRow], bookingsSeq := 1\<rparr>) 1 =
     Some (tractor\<lparr>e_availability := False\<rparr>) \<and>
   getBooking (emptyDb\<lparr>equipmentTable := [tractor\<lparr>e_availability := False\<rparr>],
                       bookings := [pendingRow], bookingsSeq := 1\<rparr>) 1 = Some pendingRow"
  by (simp add: getEquipment_def getBooking_def emptyDb_def tractor_def pendingRow_def)

lemma janRequest_admissible:
  "admissible emptyDb (Some renter) janRequest \<and> storable emptyDb janRequest \<and>
   datesInOrder janRequest"
proof -
  have "admissible emptyDb (Some renter) janRequest \<and> storable emptyDb janRequest"
    using admitBooking_admissible[of emptyDb now0 "Some renter" janRequest] admit_janRequest
    by auto
  moreover have "datesInOrder janRequest"
    by (simp add: datesInOrder_def janRequest_def jan1_def jan3_def)
  ultimately show ?thesis by blast
qed

text \<open>
  Claim C2, as stated, fails. A request from 2024-01-01 to 2024-01-03 for the
  available tractor is admitted, and the row that admission inserts has status
  \<open>pending\<close>, not \<open>awaiting_payment\<close>; the row is still \<open>pending\<close> in the store
  in which the equipment is locked and the gateway is asked for the order. When the
  gateway refuses the order the row goes from \<open>pending\<close> to \<open>payment_failed\<close>: it
  never has status \<open>awaiting_payment\<close>.
\<close>

theorem admitted_row_is_pending_counterexample:
  "datesInOrder janRequest \<and> admissible emptyDb (Some renter) janRequest \<and>
   admitBooking emptyDb now0 (Some renter) janRequest =
     Inr (pendingRow, tractor, 1500, emptyDb\<lparr>bookings := [pendingRow], bookingsSeq := 1\<rparr>) \<and>
   b_status pendingRow = ''pending'' \<and> b_status pendingRow \<noteq> ''awaiting_payment'' \<and>
   lockEquipment (emptyDb\<lparr>bookings := [pendingRow], bookingsSeq := 1\<rparr>) 1 =
     Inr (tractor\<lparr>e_availability := False\<rparr>,
          emptyDb\<lparr>equipmentTable := [tractor\<lparr>e_availability := False\<rparr>],
                  bookings := [pendingRow], bookingsSeq := 1\<rparr>) \<and>
   map b_status (bookings (snd (postBookings gatewayDown emptyDb now0 (Some renter) janRequest))) =
     [''payment_failed'']"
proof -
  have st: "b_status pendingRow = ''pending'' \<and> b_status pendingRow \<noteq> ''awaiting_payment''"
    by (simp add: pendingRow_def)
  have id: "b_equipmentId pendingRow = 1" by (simp add: pendingRow_def)
  have fail: "createPaymentSession gatewayDown
                (emptyDb\<lparr>equipmentTable := [tractor\<lparr>e_availability := False\<rparr>],
                         bookings := [pendingRow], bookingsSeq := 1\<rparr>)
                (b_id pendingRow) 1500 =
                Inl (Thrown ''Razorpay order creation rejected'')"
    by (simp add: createPaymentSession_def gatewayDown_def testEnv_def)
  from payment_failure_path[OF admit_janRequest lock_janRequest fail]
  obtain s' where
    post: "postBookings gatewayDown emptyDb now0 (Some renter) janRequest =
       ((400, ErrorJson ''Payment order creation failed''), s')" and
    len: "length (bookings s') = Suc (length (bookings emptyDb))" and
    lst: "last (bookings s') = pendingRow\<lparr>b_status := ''payment_failed'', b_lastStatusUpdate := now0\<rparr>"
    by blast
  from len have "length (bookings s') = 1" by (simp add: emptyDb_def)
  then obtain r where r: "bookings s' = [r]"
    by (cases "bookings s'") auto
  with lst have "map b_status (bookings s') = [''payment_failed'']" by simp
  with post have fin: "map b_status (bookings (snd (postBookings gatewayDown emptyDb now0
      (Some renter) janRequest))) = [''payment_failed'']"
    by simp
  from janRequest_admissible admit_janRequest st lock_janRequest[unfolded id] fin
  show ?thesis by blast
qed

text \<open>
  Claim C2, amended. A Create request is answered 201 only if it is admissible
  (authenticated, with an equipment id and two valid dates, and with the equipment
  reported available for that range by the server's own check) and the booking it
  asks for can be stored. For such a request whose start date is not after its end
  date, the route inserts the booking row with status \<open>pending\<close>, then sets the
  equipment's availability flag to false, and only then asks the gateway for the
  payment order: the gateway is asked in the store in which the flag is already false
  and the row is there. If the gateway, asked in that store, creates the order, the
  answer is 201, the booking has status \<open>awaiting_payment\<close> and carries the order
  id, and the flag is false; if it refuses, the answer is 400.
\<close>

theorem create_admission_and_eager_lock:
  "(fst (fst (postBookings ev s now user body)) = 201 \<longrightarrow>
      admissible s user body \<and> storable s body) \<and>
   (admissible s user body \<and> storable s body \<and> datesInOrder body \<longrightarrow>
      (\<exists>bk equip amt s1 s2.
         admitBooking s now user body = Inr (bk, equip, amt, s1) \<and>
         b_status bk = ''pending'' \<and> bookings s1 = bookings s @ [bk] \<and>
         equipmentTable s1 = equipmentTable s \<and>
         lockEquipment s1 (b_equipmentId bk) = Inr (equip\<lparr>e_availability := False\<rparr>, s2) \<and>
         getEquipment s2 (b_equipmentId bk) = Some (equip\<lparr>e_availability := False\<rparr>) \<and>
         bookings s2 = bookings s1 \<and>
         (\<forall>cfg. createPaymentSession ev s2 (b_id bk) amt = Inr cfg \<longrightarrow>
            (\<exists>ub s3. postBookings ev s now user body = ((201, BookingCreatedJson ub cfg), s3) \<and>
               b_id ub = b_id bk \<and> b_status ub = ''awaiting_payment'' \<and>
               b_razorpayOrderId ub = Some (c_id cfg) \<and>
               getEquipment s3 (b_equipmentId bk) = Some (equip\<lparr>e_availability := False\<rparr>) \<and>
               last (bookings s3) =
                 bk\<lparr>b_status := ''awaiting_payment'', b_razorpayOrderId := Some (c_id cfg),
                    b_lastStatusUpdate := now\<rparr>)) \<and>
         (\<forall>err. createPaymentSession ev s2 (b_id bk) amt = Inl err \<longrightarrow>
            fst (postBookings ev s now user body) =
              (400, ErrorJson ''Payment order creation failed''))))"
proof (rule conjI; rule impI)
  assume "fst (fst (postBookings ev s now user body)) = 201"
  then show "admissible s user body \<and> storable s body"
    by (rule postBookings_created_only_if_admitted)
next
  assume "admissible s user body \<and> storable s body \<and> datesInOrder body"
  then obtain bk equip amt s1 where adm: "admitBooking s now user body = Inr (bk, equip, amt, s1)"
    using admitBooking_admissible[of s now user body] by auto
  from admitBooking_Inr[OF adm] obtain u sd ed where
    e: "getEquipment s (b_equipmentId bk) = Some equip" and
    st: "b_status bk = ''pending''" and
    s1: "s1 = s\<lparr>bookings := bookings s @ [bk], bookingsSeq := bookingsSeq s + 1\<rparr>"
    by (metis booking.select_convs(7))
  from postBookings_admitted[OF adm, of ev] obtain s2 where
    lock: "lockEquipment s1 (b_equipmentId bk) = Inr (equip\<lparr>e_availability := False\<rparr>, s2)" and
    s2: "s2 = s1\<lparr>equipmentTable :=
                   map (\<lambda>x. if e_id x = b_equipmentId bk
                             then setEquipment (noPatch\<lparr>p_availability := Some False\<rparr>) x else x)
                     (equipmentTable s1)\<rparr>"
    by blast
  have g2: "getEquipment s2 (b_equipmentId bk) = Some (equip\<lparr>e_availability := False\<rparr>)"
    using e unfolding s2 s1
    by (simp add: getEquipment_def find_updated_equipment setEquipment_availability)
  have b1: "bookings s1 = bookings s @ [bk]" "equipmentTable s1 = equipmentTable s"
    by (simp_all add: s1)
  have b2: "bookings s2 = bookings s1" by (simp add: s2)
  have fin: "\<forall>cfg. createPaymentSession ev s2 (b_id bk) amt = Inr cfg \<longrightarrow>
            (\<exists>ub s3. postBookings ev s now user body = ((201, BookingCreatedJson ub cfg), s3) \<and>
               b_id ub = b_id bk \<and> b_status ub = ''awaiting_payment'' \<and>
               b_razorpayOrderId ub = Some (c_id cfg) \<and>
               getEquipment s3 (b_equipmentId bk) = Some (equip\<lparr>e_availability := False\<rparr>) \<and>
               last (bookings s3) =
                 bk\<lparr>b_status := ''awaiting_payment'', b_razorpayOrderId := Some (c_id cfg),
                    b_lastStatusUpdate := now\<rparr>)"
    using payment_success_path[OF adm lock] by blast
  have bad: "\<forall>err. createPaymentSession ev s2 (b_id bk) amt = Inl err \<longrightarrow>
            fst (postBookings ev s now user body) =
              (400, ErrorJson ''Payment order creation failed'')"
  proof (intro allI impI)
    fix err
    assume "createPaymentSession ev s2 (b_id bk) amt = Inl err"
    from payment_failure_path[OF adm lock this]
    show "fst (postBookings ev s now user body) =
            (400, ErrorJson ''Payment order creation failed'')"
      by auto
  qed
  from adm st b1 lock g2 b2 fin bad
  show "\<exists>bk equip amt s1 s2.
         admitBooking s now user body = Inr (bk, equip, amt, s1) \<and>
         b_status bk = ''pending'' \<and> bookings s1 = bookings s @ [bk] \<and>
         equipmentTable s1 = equipmentTable s \<and>
         lockEquipment s1 (b_equipmentId bk) = Inr (equip\<lparr>e_availability := False\<rparr>, s2) \<and>
         getEquipment s2 (b_equipmentId bk) = Some (equip\<lparr>e_availability := False\<rparr>) \<and>
         bookings s2 = bookings s1 \<and>
         (\<forall>cfg. createPaymentSession ev s2 (b_id bk) amt = Inr cfg \<longrightarrow>
            (\<exists>ub s3. postBookings ev s now user body = ((201, BookingCreatedJson ub cfg), s3) \<and>
               b_id ub = b_id bk \<and> b_status ub = ''awaiting_payment'' \<and>
               b_razorpayOrderId ub = Some (c_id cfg) \<and>
               getEquipment s3 (b_equipmentId bk) = Some (equip\<lparr>e_availability := False\<rparr>) \<and>
               last (bookings s3) =
                 bk\<lparr>b_status := ''awaiting_payment'', b_razorpayOrderId := Some (c_id cfg),
                    b_lastStatusUpdate := now\<rparr>)) \<and>
         (\<forall>err. createPaymentSession ev s2 (b_id bk) amt = Inl err \<longrightarrow>
            fst (postBookings ev s now user body) =
              (400, ErrorJson ''Payment order creation failed''))"
    by blast
qed

text \<open>
  The example is run with the gateway that creates an order only when it finds the
  booking pending and the equipment locked: the request is answered 201.
\<close>

theorem create_admission_and_eager_lock_witness:
  "admissible emptyDb (Some renter) janRequest \<and> storable emptyDb janRequest \<and>
   datesInOrder janRequest \<and>
   (\<exists>ub s3. postBookings watchfulGateway emptyDb now0 (Some renter) janRequest =
        ((201, BookingCreatedJson ub \<lparr>c_id = ''order_1'', c_amount = 150000\<rparr>), s3) \<and>
      b_status ub = ''awaiting_payment'' \<and> b_razorpayOrderId ub = Some ''order_1'' \<and>
      getEquipment s3 1 = Some (tractor\<lparr>e_availability := False\<rparr>) \<and>
      last (bookings s3) =
        pendingRow\<lparr>b_status := ''awaiting_payment'', b_razorpayOrderId := Some ''order_1''\<rparr>)"
proof -
  note a = janRequest_admissible
  from create_admission_and_eager_lock[of watchfulGateway emptyDb now0 "Some renter" janRequest] a
  obtain bk equip amt s1 s2 where
    adm: "admitBooking emptyDb now0 (Some renter) janRequest = Inr (bk, equip, amt, s1)" and
    lock: "lockEquipment s1 (b_equipmentId bk) = Inr (equip\<lparr>e_availability := False\<rparr>, s2)" and
    fin: "\<forall>cfg. createPaymentSession watchfulGateway s2 (b_id bk) amt = Inr cfg \<longrightarrow>
            (\<exists>ub s3. postBookings watchfulGateway emptyDb now0 (Some renter) janRequest =
                 ((201, BookingCreatedJson ub cfg), s3) \<and>
               b_id ub = b_id bk \<and> b_status ub = ''awaiting_payment'' \<and>
               b_razorpayOrderId ub = Some (c_id cfg) \<and>
               getEquipment s3 (b_equipmentId bk) = Some (equip\<lparr>e_availability := False\<rparr>) \<and>
               last (bookings s3) =
                 bk\<lparr>b_status := ''awaiting_payment'', b_razorpayOrderId := Some (c_id cfg),
                    b_lastStatusUpdate := now0\<rparr>)"
    by blast
  from adm admit_janRequest have eq: "bk = pendingRow" "equip = tractor" "amt = 1500"
    "s1 = emptyDb\<lparr>bookings := [pendingRow], bookingsSeq := 1\<rparr>"
    by simp_all
  from lock lock_janRequest have s2: "s2 = emptyDb\<lparr>equipmentTable := [tractor\<lparr>e_availability := False\<rparr>],
                  bookings := [pendingRow], bookingsSeq := 1\<rparr>"
    unfolding eq by simp
  have bid: "b_id pendingRow = 1" "b_equipmentId pendingRow = 1" "b_status pendingRow = ''pending''"
    by (simp_all add: pendingRow_def)
  have "lockedAndPending s2 (b_id pendingRow)"
    unfolding s2 bid using lockedDb_janRequest
    by (simp add: lockedAndPending_def bid)
  then have ok: "createPaymentSession watchfulGateway s2 (b_id pendingRow) 1500 =
              Inr \<lparr>c_id = ''order_1'', c_amount = 150000\<rparr>"
    by (simp add: createPaymentSession_def watchfulGateway_def testEnv_def)
  from fin ok obtain ub s3 where
    "postBookings watchfulGateway emptyDb now0 (Some renter) janRequest =
       ((201, BookingCreatedJson ub \<lparr>c_id = ''order_1'', c_amount = 150000\<rparr>), s3)"
    "b_status ub = ''awaiting_payment''" "b_razorpayOrderId ub = Some ''order_1''"
    "getEquipment s3 (b_equipmentId pendingRow) = Some (tractor\<lparr>e_availability := False\<rparr>)"
    "last (bookings s3) =
       pendingRow\<lparr>b_status := ''awaiting_payment'', b_razorpayOrderId := Some ''order_1'',
          b_lastStatusUpdate := now0\<rparr>"
    unfolding eq by fastforce
  moreover have "pendingRow\<lparr>b_status := ''awaiting_payment'', b_razorpayOrderId := Some ''order_1'',
          b_lastStatusUpdate := now0\<rparr> =
       pendingRow\<lparr>b_status := ''awaiting_payment'', b_razorpayOrderId := Some ''order_1''\<rparr>"
    by (simp add: pendingRow_def)
  ultimately show ?thesis using a bid by auto
qed

section \<open>Signature checks\<close>

lemma updateEquipment_frame:
  assumes "updateEquipment s eid data = Inr (r, s')"
  shows "bookings s' = bookings s \<and> reviews s' = reviews s \<and> receipts s' = receipts s \<and>
         equipmentTable s' =
           map (\<lambda>x. if e_id x = eid then setEquipment data x else x) (equipmentTable s)"
  using assms
  by (auto simp: updateEquipment_def Let_def split: if_splits option.splits)

lemma verifyPayment_bad_signature:
  assumes bk: "getBooking s bookingId = Some bk"
      and st: "b_status bk \<noteq> ''paid''"
      and present: "bookingId \<noteq> 0" "orderId \<noteq> []" "paymentId \<noteq> []" "signature \<noteq> []"
      and bad: "signature \<noteq> hmacSha256Hex ev (RAZORPAY_KEY_SECRET ev) (orderId @ ''|'' @ paymentId)"
  shows "verifyPayment ev s now bookingId orderId paymentId signature =
           (case updateEquipment s (b_equipmentId bk) (noPatch\<lparr>p_availability := Some True\<rparr>) of
              Inl err \<Rightarrow> ((500, ErrorJson ''Payment verification failed''), s)
            | Inr (released, s') \<Rightarrow> ((400, ErrorJson ''Invalid payment signature''), s'))"
  using assms
  by (auto simp: verifyPayment_def verifyPaymentSignature_def Let_def)

lemma webhook_rejects_bad_signature:
  assumes "truthy (RAZORPAY_WEBHOOK_SECRET ev)"
      and "\<not> truthy header \<or>
           header \<noteq> Some (hmacSha256Hex ev (the (RAZORPAY_WEBHOOK_SECRET ev)) rawBody)"
  shows "fst (fst (razorpayWebhook ev s now header rawBody parsed)) = 400 \<and>
         snd (razorpayWebhook ev s now header rawBody parsed) = s"
  using assms by (auto simp: razorpayWebhook_def)

text \<open>
  Claim C4, as stated, fails: on a booking that awaits payment, a verify-payment call
  whose signature is empty (and so differs from the HMAC) is answered 400 with nothing
  written; the equipment's flag stays false.
\<close>

theorem empty_signature_not_released_counterexample:
  "getBooking heldDb 1 = Some held \<and> b_status held = ''awaiting_payment'' \<and>
   [] \<noteq> hmacSha256Hex testEnv (RAZORPAY_KEY_SECRET testEnv) (''order_1'' @ ''|'' @ ''pay_1'') \<and>
   verifyPayment testEnv heldDb now0 1 ''order_1'' ''pay_1'' [] =
     ((400, ErrorJson ''Missing required payment details''), heldDb) \<and>
   map_option e_availability (getEquipment heldDb (b_equipmentId held)) = Some False"
  by (simp add: verifyPayment_def heldDb_def held_def getBooking_def getEquipment_def
      tractor_def testEnv_def)

text \<open>
  Claim C4, amended. A verify-payment call that carries all four fields, on a booking
  that awaits payment, with a signature different from HMAC-SHA256(secret,
  orderId|paymentId), is never answered with success and writes no booking row; every
  row of the booking's equipment ends with its flag true, and when that equipment
  exists the answer is 400 and its flag is set to true. A webhook received while a
  webhook secret is configured, whose signature header is missing or differs from
  HMAC-SHA256(secret, raw body), is answered 400 and changes nothing.
\<close>

theorem signature_failure_never_succeeds:
  "(getBooking s bookingId = Some bk \<and> b_status bk = ''awaiting_payment'' \<and>
    bookingId \<noteq> 0 \<and> orderId \<noteq> [] \<and> paymentId \<noteq> [] \<and> signature \<noteq> [] \<and>
    signature \<noteq> hmacSha256Hex ev (RAZORPAY_KEY_SECRET ev) (orderId @ ''|'' @ paymentId) \<longrightarrow>
      (\<exists>r s'. verifyPayment ev s now bookingId orderId paymentId signature = (r, s') \<and>
         fst r \<noteq> 200 \<and> bookings s' = bookings s \<and> getBooking s' bookingId = Some bk \<and>
         (\<forall>e \<in> set (equipmentTable s'). e_id e = b_equipmentId bk \<longrightarrow> e_availability e) \<and>
         (\<forall>e. getEquipment s (b_equipmentId bk) = Some e \<longrightarrow>
            r = (400, ErrorJson ''Invalid payment signature'') \<and>
            getEquipment s' (b_equipmentId bk) = Some (e\<lparr>e_availability := True\<rparr>)))) \<and>
   (truthy (RAZORPAY_WEBHOOK_SECRET ev) \<and>
    (\<not> truthy header \<or>
     header \<noteq> Some (hmacSha256Hex ev (the (RAZORPAY_WEBHOOK_SECRET ev)) rawBody)) \<longrightarrow>
      fst (fst (razorpayWebhook ev s now header rawBody parsed)) = 400 \<and>
      snd (razorpayWebhook ev s now header rawBody parsed) = s)"
proof (intro conjI impI)
  assume h: "getBooking s bookingId = Some bk \<and> b_status bk = ''awaiting_payment'' \<and>
    bookingId \<noteq> 0 \<and> orderId \<noteq> [] \<and> paymentId \<noteq> [] \<and> signature \<noteq> [] \<and>
    signature \<noteq> hmacSha256Hex ev (RAZORPAY_KEY_SECRET ev) (orderId @ ''|'' @ paymentId)"
  then have np: "b_status bk \<noteq> ''paid''" by simp
  from h have v: "verifyPayment ev s now bookingId orderId paymentId signature =
           (case updateEquipment s (b_equipmentId bk) (noPatch\<lparr>p_availability := Some True\<rparr>) of
              Inl err \<Rightarrow> ((500, ErrorJson ''Payment verification failed''), s)
            | Inr (released, s') \<Rightarrow> ((400, ErrorJson ''Invalid payment signature''), s'))"
    using verifyPayment_bad_signature[OF _ np] by blast
  show "\<exists>r s'. verifyPayment ev s now bookingId orderId paymentId signature = (r, s') \<and>
         fst r \<noteq> 200 \<and> bookings s' = bookings s \<and> getBooking s' bookingId = Some bk \<and>
         (\<forall>e \<in> set (equipmentTable s'). e_id e = b_equipmentId bk \<longrightarrow> e_availability e) \<and>
         (\<forall>e. getEquipment s (b_equipmentId bk) = Some e \<longrightarrow>
            r = (400, ErrorJson ''Invalid payment signature'') \<and>
            getEquipment s' (b_equipmentId bk) = Some (e\<lparr>e_availability := True\<rparr>))"
  proof (cases "getEquipment s (b_equipmentId bk)")
    case None
    then have none: "\<forall>e \<in> set (equipmentTable s). e_id e \<noteq> b_equipmentId bk"
      by (auto simp: getEquipment_def find_None_iff)
    from v updateEquipment_missing[OF None]
    have "verifyPayment ev s now bookingId orderId paymentId signature =
            ((500, ErrorJson ''Payment verification failed''), s)"
      by simp
    with None none h show ?thesis by auto
  next
    case (Some e)
    let ?s' = "s\<lparr>equipmentTable :=
                    map (\<lambda>x. if e_id x = b_equipmentId bk
                              then setEquipment (noPatch\<lparr>p_availability := Some True\<rparr>) x else x)
                      (equipmentTable s)\<rparr>"
    from v updateEquipment_found[OF Some lock_neq, of True]
    have "verifyPayment ev s now bookingId orderId paymentId signature =
            ((400, ErrorJson ''Invalid payment signature''), ?s')"
      by simp
    moreover have "getEquipment ?s' (b_equipmentId bk) = Some (e\<lparr>e_availability := True\<rparr>)"
      using Some by (simp add: getEquipment_after_update setEquipment_availability)
    moreover have "\<forall>x \<in> set (equipmentTable ?s'). e_id x = b_equipmentId bk \<longrightarrow> e_availability x"
      by (auto simp: setEquipment_availability)
    moreover have "getBooking ?s' bookingId = Some bk" using h by simp
    ultimately show ?thesis using Some by auto
  qed
next
  assume "truthy (RAZORPAY_WEBHOOK_SECRET ev) \<and>
    (\<not> truthy header \<or>
     header \<noteq> Some (hmacSha256Hex ev (the (RAZORPAY_WEBHOOK_SECRET ev)) rawBody))"
  then show "fst (fst (razorpayWebhook ev s now header rawBody parsed)) = 400"
    and "snd (razorpayWebhook ev s now header rawBody parsed) = s"
    using webhook_rejects_bad_signature by blast+
qed

theorem signature_failure_never_succeeds_witness:
  "verifyPayment testEnv heldDb now0 1 ''order_1'' ''pay_1'' ''forged'' =
     ((400, ErrorJson ''Invalid payment signature''), heldDb\<lparr>equipmentTable := [tractor]\<rparr>) \<and>
   getBooking (heldDb\<lparr>equipmentTable := [tractor]\<rparr>) 1 = Some held \<and>
   b_status held = ''awaiting_payment'' \<and>
   razorpayWebhook testEnv heldDb now0 (Some ''forged'') ''body'' (Some statusCaptured) =
     ((400, ErrorJson ''Invalid signature''), heldDb) \<and>
   fst (fst (razorpayWebhook testEnv heldDb now0 None ''body'' (Some statusCaptured))) = 400"
proof -
  have pre: "getBooking heldDb 1 = Some held \<and> b_status held = ''awaiting_payment'' \<and>
    (1::int) \<noteq> 0 \<and> ''order_1'' \<noteq> [] \<and> ''pay_1'' \<noteq> [] \<and> ''forged'' \<noteq> [] \<and>
    ''forged'' \<noteq> hmacSha256Hex testEnv (RAZORPAY_KEY_SECRET testEnv) (''order_1'' @ ''|'' @ ''pay_1'')"
    by (simp add: heldDb_def held_def getBooking_def testEnv_def)
  have e: "getEquipment heldDb (b_equipmentId held) = Some (tractor\<lparr>e_availability := False\<rparr>)"
    by (simp add: heldDb_def held_def getEquipment_def tractor_def)
  have w: "truthy (RAZORPAY_WEBHOOK_SECRET testEnv) \<and>
    (\<not> truthy (Some ''forged'') \<or>
     Some ''forged'' \<noteq> Some (hmacSha256Hex testEnv (the (RAZORPAY_WEBHOOK_SECRET testEnv)) ''body''))"
    by (simp add: testEnv_def truthy_def)
  have w2: "truthy (RAZORPAY_WEBHOOK_SECRET testEnv) \<and>
    (\<not> truthy None \<or>
     None \<noteq> Some (hmacSha256Hex testEnv (the (RAZORPAY_WEBHOOK_SECRET testEnv)) ''body''))"
    by (simp add: testEnv_def truthy_def)
  from signature_failure_never_succeeds
         [of heldDb 1 held "''order_1''" "''pay_1''" "''forged''" testEnv now0 "Some ''forged''"
             "''body''" "Some statusCaptured"] pre e w
  obtain s' where
    v: "verifyPayment testEnv heldDb now0 1 ''order_1'' ''pay_1'' ''forged'' =
          ((400, ErrorJson ''Invalid payment signature''), s')" and
    b: "bookings s' = bookings heldDb" "getBooking s' 1 = Some held" and
    g: "getEquipment s' (b_equipmentId held) =
          Some (tractor\<lparr>e_availability := False, e_availability := True\<rparr>)" and
    wh: "fst (fst (razorpayWebhook testEnv heldDb now0 (Some ''forged'') ''body''
                     (Some statusCaptured))) = 400"
        "snd (razorpayWebhook testEnv heldDb now0 (Some ''forged'') ''body''
                (Some statusCaptured)) = heldDb"
    by auto
  have v': "verifyPayment testEnv heldDb now0 1 ''order_1'' ''pay_1'' ''forged'' =
     ((400, ErrorJson ''Invalid payment signature''), heldDb\<lparr>equipmentTable := [tractor]\<rparr>)"
    by (simp add: verifyPayment_def heldDb_def held_def getBooking_def testEnv_def
        verifyPaymentSignature_def updateEquipment_def noPatch_def setEquipment_def orElse_def
        tractor_def Let_def)
  have wh': "razorpayWebhook testEnv heldDb now0 (Some ''forged'') ''body'' (Some statusCaptured) =
     ((400, ErrorJson ''Invalid signature''), heldDb)"
    by (simp add: razorpayWebhook_def testEnv_def truthy_def)
  from signature_failure_never_succeeds
         [of heldDb 1 held "''order_1''" "''pay_1''" "''forged''" testEnv now0 None
             "''body''" "Some statusCaptured"] w2
  have "fst (fst (razorpayWebhook testEnv heldDb now0 None ''body'' (Some statusCaptured))) = 400"
    by blast
  moreover from v v' b have "getBooking (heldDb\<lparr>equipmentTable := [tractor]\<rparr>) 1 = Some held"
    by simp
  ultimately show ?thesis using v' wh' pre by simp
qed


section \<open>Verification of a booking that is already paid\<close>

lemma getBooking_paidDb: "getBooking paidDb 1 = Some paidRow"
  by (simp add: paidDb_def heldDb_def paidRow_def held_def getBooking_def)

text \<open>
  Claim C10, as stated, fails: for a paid booking, the empty signature is answered 400
  and any other signature is answered 200, with the same booking id, order id and
  payment id.
\<close>

theorem paid_booking_empty_signature_counterexample:
  "getBooking paidDb 1 = Some paidRow \<and> b_status paidRow = ''paid'' \<and>
   verifyPayment testEnv paidDb now0 1 ''order_1'' ''pay_1'' [] =
     ((400, ErrorJson ''Missing required payment details''), paidDb) \<and>
   verifyPayment testEnv paidDb now0 1 ''order_1'' ''pay_1'' ''anything'' =
     ((200, VerifiedJson paidRow), paidDb)"
  by (simp add: verifyPayment_def getBooking_paidDb) (simp add: paidRow_def)

text \<open>
  Claim C10, amended. For a booking whose status is already \<open>paid\<close>, a verify-payment
  call that carries all four fields is answered with success and the booking, and
  leaves the store as it was, whatever the signature: two calls that differ only in
  their (non-empty) signatures have the same answer and the same resulting store.
\<close>

theorem paid_booking_ignores_signature:
  assumes "getBooking s bookingId = Some bk" and "b_status bk = ''paid''"
      and "bookingId \<noteq> 0" and "orderId \<noteq> []" and "paymentId \<noteq> []"
      and "signature1 \<noteq> []" and "signature2 \<noteq> []"
  shows "verifyPayment ev s now bookingId orderId paymentId signature1 =
           ((200, VerifiedJson bk), s) \<and>
         verifyPayment ev s now bookingId orderId paymentId signature2 =
           verifyPayment ev s now bookingId orderId paymentId signature1"
  using assms by (simp add: verifyPayment_def)

theorem paid_booking_ignores_signature_witness:
  "verifyPayment testEnv paidDb now0 1 ''order_1'' ''pay_1'' ''forged'' =
     ((200, VerifiedJson paidRow), paidDb) \<and>
   verifyPayment testEnv paidDb now0 1 ''order_1'' ''pay_1''
       (hmacSha256Hex testEnv ''key_secret'' ''order_1|pay_1'') =
     verifyPayment testEnv paidDb now0 1 ''order_1'' ''pay_1'' ''forged''"
proof -
  have st: "b_status paidRow = ''paid''" by (simp add: paidRow_def)
  have ne: "hmacSha256Hex testEnv ''key_secret'' ''order_1|pay_1'' \<noteq> []"
    by (simp add: testEnv_def)
  from paid_booking_ignores_signature
         [OF getBooking_paidDb st, of "''order_1''" "''pay_1''" "''forged''"
             "hmacSha256Hex testEnv ''key_secret'' ''order_1|pay_1''" testEnv now0] ne
  show ?thesis by simp
qed


section \<open>Webhook deliveries\<close>

lemma parseInt_1: "parseInt ''1'' = Some 1"
  by (simp add: parseInt_def isWhiteSpace_def digitValue_def Let_def)

text \<open>
  The route as mounted, on a server with a webhook secret: every request is answered
  400 and nothing is written. Without a secret, a request whose body is an object is
  answered 400 as well.
\<close>

lemma webhookRoute_with_secret:
  assumes "truthy (RAZORPAY_WEBHOOK_SECRET ev)"
  shows "fst (fst (webhookRoute JSON_parse ev s now signature body)) = 400 \<and>
         snd (webhookRoute JSON_parse ev s now signature body) = s"
  using assms by (simp add: webhookRoute_def)

lemma webhookRoute_object_body:
  "fst (fst (webhookRoute JSON_parse ev s now signature ObjectBody)) = 400 \<and>
   snd (webhookRoute JSON_parse ev s now signature ObjectBody) = s"
  by (simp add: webhookRoute_def)

lemma readEvent_capturedBody: "readEvent (joinComma [capturedText]) = Some capturedEvent"
  by (simp add: readEvent_def)

lemma webhook_captured_first:
  "webhookRoute readEvent noWebhookSecret heldDb now0 None capturedBody =
     ((200, ReceivedJson),
      heldDb\<lparr>bookings := [paidRow\<lparr>b_lastStatusUpdate := now0\<rparr>], receipts := [(1, ''pay_1'')]\<rparr>)"
  by (simp add: webhookRoute_def capturedBody_def readEvent_capturedBody del: joinComma.simps)
     (simp add: razorpayWebhook_def noWebhookSecret_def testEnv_def truthy_def capturedEvent_def
      routesHandleWebhookEvent_def webhookConfirm_def updateBooking_def updateEquipment_def
      generateReceipt_def heldDb_def held_def paidRow_def setBooking_def setEquipment_def
      noPatch_def noBookingPatch_def orElse_def tractor_def Let_def getBooking_def
      getEquipment_def)

lemma webhook_captured_second:
  "webhookRoute readEvent noWebhookSecret
       (heldDb\<lparr>bookings := [paidRow\<lparr>b_lastStatusUpdate := now0\<rparr>], receipts := [(1, ''pay_1'')]\<rparr>)
       (now0 + 60000) None capturedBody =
     ((200, ReceivedJson),
      heldDb\<lparr>bookings := [paidRow\<lparr>b_lastStatusUpdate := now0 + 60000\<rparr>],
             receipts := [(1, ''pay_1''), (1, ''pay_1'')]\<rparr>)"
  by (simp add: webhookRoute_def capturedBody_def readEvent_capturedBody del: joinComma.simps)
     (simp add: razorpayWebhook_def noWebhookSecret_def testEnv_def truthy_def capturedEvent_def
      routesHandleWebhookEvent_def webhookConfirm_def updateBooking_def updateEquipment_def
      generateReceipt_def heldDb_def held_def paidRow_def setBooking_def setEquipment_def
      noPatch_def noBookingPatch_def orElse_def tractor_def Let_def getBooking_def
      getEquipment_def)

text \<open>
  Claim C3, evaluated on the webhook path, on a server with no webhook secret
  configured. The request body is a JSON array of one string, the text of an event
  named \<open>payment.captured\<close> for booking 1 and payment \<open>pay_1\<close>; the route reads
  the event from the string conversion of the body. The same request, delivered twice,
  is applied twice: after the first delivery the booking is paid and one receipt has
  been generated; the second delivery is answered the same, rewrites the booking row
  and generates a second receipt. The route has no check of the booking's current
  status.
\<close>

theorem duplicate_webhook_is_applied_twice:
  "RAZORPAY_WEBHOOK_SECRET noWebhookSecret = None \<and>
   ev_event capturedEvent = Some ''payment.captured'' \<and>
   readEvent (joinComma [capturedText]) = Some capturedEvent \<and>
   map b_status (bookings heldDb) = [''awaiting_payment''] \<and> receipts heldDb = [] \<and>
   (let d1 = webhookRoute readEvent noWebhookSecret heldDb now0 None capturedBody;
        d2 = webhookRoute readEvent noWebhookSecret (snd d1) (now0 + 60000) None capturedBody
    in fst d1 = (200, ReceivedJson) \<and> fst d2 = (200, ReceivedJson) \<and>
       map b_status (bookings (snd d1)) = [''paid''] \<and>
       receipts (snd d1) = [(1, ''pay_1'')] \<and>
       receipts (snd d2) = [(1, ''pay_1''), (1, ''pay_1'')] \<and>
       length (receipts (snd d2)) = 2 \<and>
       bookings (snd d2) \<noteq> bookings (snd d1) \<and> snd d2 \<noteq> snd d1)"
proof -
  have a: "RAZORPAY_WEBHOOK_SECRET noWebhookSecret = None \<and>
      ev_event capturedEvent = Some ''payment.captured'' \<and>
      map b_status (bookings heldDb) = [''awaiting_payment''] \<and> receipts heldDb = []"
    by (simp add: noWebhookSecret_def testEnv_def capturedEvent_def heldDb_def held_def)
  have b: "(let d1 = webhookRoute readEvent noWebhookSecret heldDb now0 None capturedBody;
        d2 = webhookRoute readEvent noWebhookSecret (snd d1) (now0 + 60000) None capturedBody
    in fst d1 = (200, ReceivedJson) \<and> fst d2 = (200, ReceivedJson) \<and>
       map b_status (bookings (snd d1)) = [''paid''] \<and>
       receipts (snd d1) = [(1, ''pay_1'')] \<and>
       receipts (snd d2) = [(1, ''pay_1''), (1, ''pay_1'')] \<and>
       length (receipts (snd d2)) = 2 \<and>
       bookings (snd d2) \<noteq> bookings (snd d1) \<and> snd d2 \<noteq> snd d1)"
    by (simp add: webhook_captured_first webhook_captured_second)
       (simp add: paidRow_def held_def now0_def heldDb_def)
  from a readEvent_capturedBody b show ?thesis by blast
qed

text \<open>
  The synchronous path does detect the duplicate: a verify-payment call that succeeded,
  repeated on the store it left, is answered the same and leaves that store unchanged.
\<close>

lemma verifyPayment_repeat:
  assumes "verifyPayment ev s now bookingId orderId paymentId signature = ((200, p), s1)"
  shows "verifyPayment ev s1 now' bookingId orderId paymentId signature = ((200, p), s1)"
proof -
  from assms have present: "bookingId \<noteq> 0" "orderId \<noteq> []" "paymentId \<noteq> []" "signature \<noteq> []"
    by (auto simp: verifyPayment_def split: if_splits)
  from assms present obtain bk where bk: "getBooking s bookingId = Some bk"
    by (cases "getBooking s bookingId") (auto simp: verifyPayment_def)
  show ?thesis
  proof (cases "b_status bk = ''paid''")
    case True
    with assms bk present have "s1 = s" "p = VerifiedJson bk"
      by (auto simp: verifyPayment_def)
    with True bk present show ?thesis by (simp add: verifyPayment_def)
  next
    case False
    let ?pt = "noBookingPatch\<lparr>u_status := Some ''paid'', u_razorpayPaymentId := Some paymentId\<rparr>"
    let ?sb = "s\<lparr>bookings := map (\<lambda>x. if b_id x = bookingId then setBooking ?pt now x else x)
                               (bookings s)\<rparr>"
    from assms bk present False
    have valid: "verifyPaymentSignature ev orderId paymentId signature"
      by (auto simp: verifyPayment_def split: sum.splits if_splits)
    have ub: "updateBooking s now bookingId ?pt = Inr (setBooking ?pt now bk, ?sb)"
      by (rule updateBooking_found[OF bk])
    from assms bk present False valid ub
    obtain locked where
      ue: "updateEquipment ?sb (b_equipmentId bk) (noPatch\<lparr>p_availability := Some False\<rparr>) =
             Inr (locked, s1)" and p: "p = VerifiedJson (setBooking ?pt now bk)"
      by (auto simp: verifyPayment_def split: sum.splits)
    from updateEquipment_frame[OF ue] have "bookings s1 = bookings ?sb" by simp
    then have "getBooking s1 bookingId = getBooking ?sb bookingId"
      by (simp add: getBooking_def)
    also have "\<dots> = Some (setBooking ?pt now bk)"
      using bk by (simp add: getBooking_after_update)
    finally have g: "getBooking s1 bookingId = Some (setBooking ?pt now bk)" .
    have "b_status (setBooking ?pt now bk) = ''paid''"
      by (simp add: setBooking_paid)
    with g p present show ?thesis by (simp add: verifyPayment_def)
  qed
qed

text \<open>
  Claim C6, evaluated: for an event as the gateway sends it (name
  \<open>payment.captured\<close>, booking id in the notes of the payment entity), the reader of
  payment.ts returns the success for booking 1, while the reader the webhook route
  calls returns nothing, so the route acknowledges the event and leaves the booking
  awaiting payment. The route's reader follows \<open>payload.payment.status\<close> instead: an
  event named \<open>payment.failed\<close> whose payment status is \<open>captured\<close> confirms the
  booking named by \<open>order_id\<close>.
\<close>

theorem webhook_route_does_not_dispatch_on_event_name:
  "handleWebhookEvent gatewayCaptured = Inr (Some (WebhookSuccessResult 1 ''order_1'' ''pay_1'')) \<and>
   routesHandleWebhookEvent gatewayCaptured = Inr None \<and>
   razorpayWebhook testEnv heldDb now0 (signed ''evt'') ''evt'' (Some gatewayCaptured) =
     ((200, ReceivedJson), heldDb) \<and>
   map b_status (bookings heldDb) = [''awaiting_payment''] \<and>
   map b_status (bookings (snd (razorpayWebhook testEnv heldDb now0 (signed ''evt'') ''evt''
      (Some (statusCaptured\<lparr>ev_event := Some ''payment.failed''\<rparr>))))) = [''paid'']"
  by (simp add: handleWebhookEvent_def gatewayCaptured_def parseInt_1
      razorpayWebhook_def signed_def testEnv_def truthy_def statusCaptured_def
      routesHandleWebhookEvent_def webhookConfirm_def updateBooking_def updateEquipment_def
      generateReceipt_def heldDb_def held_def setBooking_def setEquipment_def
      noPatch_def noBookingPatch_def orElse_def tractor_def Let_def)


section \<open>Review gate\<close>

lemma find_sorted_key_least:
  assumes "sorted (map f xs)" "find P xs = Some y" "z \<in> set xs" "P z"
  shows "f y \<le> f z"
  using assms
proof (induction xs)
  case Nil
  then show ?case by simp
next
  case (Cons x xs)
  show ?case
  proof (cases "P x")
    case True
    with Cons.prems show ?thesis by auto
  next
    case False
    with Cons.prems have "find P xs = Some y" "z \<in> set xs" "sorted (map f xs)"
      by auto
    with Cons.IH Cons.prems(4) show ?thesis by blast
  qed
qed

lemma find_Some_set: "find P xs = Some y \<Longrightarrow> y \<in> set xs \<and> P y"
  by (induction xs) (auto split: if_splits)

lemma listBookings_user:
  assumes "uid \<noteq> 0"
  shows "set (listBookings s (Some uid)) = {b \<in> set (bookings s). b_userId b = uid}"
    and "sorted (map (\<lambda>b. - b_createdAt b) (listBookings s (Some uid)))"
  using assms by (auto simp: listBookings_def)

lemma createReview_frame:
  "createReview s now rv = (r, s1) \<Longrightarrow>
     bookings s1 = bookings s \<and> equipmentTable s1 = equipmentTable s \<and>
     reviews s1 = reviews s @ [r] \<and>
     r = \<lparr>r_id = reviewsSeq s + 1, r_userId = v_userId rv, r_equipmentId = v_equipmentId rv,
          r_rating = v_rating rv, r_comment = v_comment rv, r_createdAt = now\<rparr>"
  by (auto simp: createReview_def Let_def)

lemma postReviews_no_eligible:
  assumes "user = Some u" "su_id u \<noteq> 0" "w_equipmentId body = Some eid"
      and "\<not> (\<exists>b \<in> set (bookings s). b_userId b = su_id u \<and> eligibleFor eid b)"
  shows "fst (fst (postReviews s now user body)) = 400 \<and> snd (postReviews s now user body) = s"
proof (cases "reviewSchemaOk body")
  case False
  with assms(1) show ?thesis by (simp add: postReviews_def)
next
  case True
  have "find (eligibleFor eid) (listBookings s (Some (su_id u))) = None"
    using assms(4) listBookings_user(1)[OF assms(2), of s]
    by (auto simp: find_None_iff)
  with True assms(1,3) show ?thesis by (simp add: postReviews_def Let_def)
qed

lemma postReviews_eligible:
  assumes user: "user = Some u" and uid: "su_id u \<noteq> 0" and eid: "w_equipmentId body = Some eid"
      and ok: "reviewSchemaOk body"
      and vb: "find (eligibleFor eid) (listBookings s (Some (su_id u))) = Some vb"
  shows "postReviews s now user body =
           ((200, ReviewJson \<lparr>r_id = reviewsSeq s + 1, r_userId = su_id u, r_equipmentId = eid,
                              r_rating = the (w_rating body), r_comment = the (w_comment body),
                              r_createdAt = now\<rparr>),
            s\<lparr>reviews := reviews s @
                  [\<lparr>r_id = reviewsSeq s + 1, r_userId = su_id u, r_equipmentId = eid,
                    r_rating = the (w_rating body), r_comment = the (w_comment body),
                    r_createdAt = now\<rparr>],
              reviewsSeq := reviewsSeq s + 1,
              bookings := map (\<lambda>b. if b_id b = b_id vb
                                    then b\<lparr>b_isRated := True, b_lastStatusUpdate := now\<rparr> else b)
                            (bookings s)\<rparr>)"
proof -
  let ?rv = "\<lparr>r_id = reviewsSeq s + 1, r_userId = su_id u, r_equipmentId = eid,
              r_rating = the (w_rating body), r_comment = the (w_comment body),
              r_createdAt = now\<rparr>"
  let ?s1 = "s\<lparr>reviews := reviews s @ [?rv], reviewsSeq := reviewsSeq s + 1\<rparr>"
  from find_Some_set[OF vb] listBookings_user(1)[OF uid, of s]
  have mem: "vb \<in> set (bookings ?s1)" by auto
  from updateBooking_member[OF mem refl, of now "noBookingPatch\<lparr>u_isRated := Some True\<rparr>"]
  obtain r where
    "updateBooking ?s1 now (b_id vb) (noBookingPatch\<lparr>u_isRated := Some True\<rparr>) =
       Inr (r, ?s1\<lparr>bookings :=
             map (\<lambda>x. if b_id x = b_id vb
                       then setBooking (noBookingPatch\<lparr>u_isRated := Some True\<rparr>) now x else x)
               (bookings ?s1)\<rparr>)"
    by blast
  with user eid ok vb show ?thesis
    by (simp add: postReviews_def createReview_def Let_def setBooking_rated)
qed

text \<open>
  Claim C7. For an authenticated renter (user ids are serial, so never 0) and a given
  equipment id: a review is accepted (200) only if some booking of that renter for that
  equipment has status \<open>paid\<close> and is not rated; without such a booking the request
  fails with 400, a validation error and not the 404 of a missing row, and nothing is
  written. On success the review row is inserted, the booking chosen is an eligible one
  that no other eligible booking of the renter was created after, and that booking is
  marked rated. With a valid body, an eligible booking is also enough for success.
\<close>

theorem review_gate:
  assumes "user = Some u" and "su_id u \<noteq> 0" and "w_equipmentId body = Some eid"
  shows
    "(fst (fst (postReviews s now user body)) = 200 \<longrightarrow>
        (\<exists>vb \<in> set (bookings s).
           b_userId vb = su_id u \<and> eligibleFor eid vb \<and>
           (\<forall>b \<in> set (bookings s).
              b_userId b = su_id u \<and> eligibleFor eid b \<longrightarrow> b_createdAt b \<le> b_createdAt vb) \<and>
           postReviews s now user body =
             ((200, ReviewJson \<lparr>r_id = reviewsSeq s + 1, r_userId = su_id u, r_equipmentId = eid,
                                r_rating = the (w_rating body), r_comment = the (w_comment body),
                                r_createdAt = now\<rparr>),
              s\<lparr>reviews := reviews s @
                    [\<lparr>r_id = reviewsSeq s + 1, r_userId = su_id u, r_equipmentId = eid,
                      r_rating = the (w_rating body), r_comment = the (w_comment body),
                      r_createdAt = now\<rparr>],
                reviewsSeq := reviewsSeq s + 1,
                bookings := map (\<lambda>b. if b_id b = b_id vb
                                      then b\<lparr>b_isRated := True, b_lastStatusUpdate := now\<rparr>
                                      else b)
                              (bookings s)\<rparr>))) \<and>
     (\<not> (\<exists>b \<in> set (bookings s). b_userId b = su_id u \<and> eligibleFor eid b) \<longrightarrow>
        fst (fst (postReviews s now user body)) = 400 \<and> snd (postReviews s now user body) = s) \<and>
     (reviewSchemaOk body \<and> (\<exists>b \<in> set (bookings s). b_userId b = su_id u \<and> eligibleFor eid b) \<longrightarrow>
        fst (fst (postReviews s now user body)) = 200)"
proof (intro conjI impI)
  assume ok200: "fst (fst (postReviews s now user body)) = 200"
  then have schema: "reviewSchemaOk body"
    using assms(1) by (auto simp: postReviews_def split: if_splits)
  from ok200 schema assms(1,3)
  obtain vb where vb: "find (eligibleFor eid) (listBookings s (Some (su_id u))) = Some vb"
    by (cases "find (eligibleFor eid) (listBookings s (Some (su_id u)))")
       (auto simp: postReviews_def Let_def)
  from find_Some_set[OF vb] listBookings_user(1)[OF assms(2), of s]
  have mem: "vb \<in> set (bookings s)" "b_userId vb = su_id u" "eligibleFor eid vb"
    by auto
  have newest: "\<forall>b \<in> set (bookings s).
      b_userId b = su_id u \<and> eligibleFor eid b \<longrightarrow> b_createdAt b \<le> b_createdAt vb"
  proof (intro ballI impI)
    fix b assume "b \<in> set (bookings s)" "b_userId b = su_id u \<and> eligibleFor eid b"
    then have "b \<in> set (listBookings s (Some (su_id u)))" "eligibleFor eid b"
      using listBookings_user(1)[OF assms(2), of s] by auto
    from find_sorted_key_least[OF listBookings_user(2)[OF assms(2), of s] vb this]
    show "b_createdAt b \<le> b_createdAt vb" by simp
  qed
  from mem newest postReviews_eligible[OF assms schema vb, of now]
  show "\<exists>vb \<in> set (bookings s).
           b_userId vb = su_id u \<and> eligibleFor eid vb \<and>
           (\<forall>b \<in> set (bookings s).
              b_userId b = su_id u \<and> eligibleFor eid b \<longrightarrow> b_createdAt b \<le> b_createdAt vb) \<and>
           postReviews s now user body =
             ((200, ReviewJson \<lparr>r_id = reviewsSeq s + 1, r_userId = su_id u, r_equipmentId = eid,
                                r_rating = the (w_rating body), r_comment = the (w_comment body),
                                r_createdAt = now\<rparr>),
              s\<lparr>reviews := reviews s @
                    [\<lparr>r_id = reviewsSeq s + 1, r_userId = su_id u, r_equipmentId = eid,
                      r_rating = the (w_rating body), r_comment = the (w_comment body),
                      r_createdAt = now\<rparr>],
                reviewsSeq := reviewsSeq s + 1,
                bookings := map (\<lambda>b. if b_id b = b_id vb
                                      then b\<lparr>b_isRated := True, b_lastStatusUpdate := now\<rparr>
                                      else b)
                              (bookings s)\<rparr>)"
    by blast
next
  assume "\<not> (\<exists>b \<in> set (bookings s). b_userId b = su_id u \<and> eligibleFor eid b)"
  from postReviews_no_eligible[OF assms this, of now]
  show "fst (fst (postReviews s now user body)) = 400"
    and "snd (postReviews s now user body) = s"
    by simp_all
next
  assume h: "reviewSchemaOk body \<and>
    (\<exists>b \<in> set (bookings s). b_userId b = su_id u \<and> eligibleFor eid b)"
  then obtain b where "b \<in> set (listBookings s (Some (su_id u)))" "eligibleFor eid b"
    using listBookings_user(1)[OF assms(2), of s] by auto
  then obtain vb where vb: "find (eligibleFor eid) (listBookings s (Some (su_id u))) = Some vb"
    by (cases "find (eligibleFor eid) (listBookings s (Some (su_id u)))")
       (auto simp: find_None_iff)
  from h postReviews_eligible[OF assms _ vb, of now]
  show "fst (fst (postReviews s now user body)) = 200" by simp
qed

theorem review_gate_witness:
  "fst (fst (postReviews twiceRentedDb (now0 + 172800000) (Some renter) goodReview)) = 200 \<and>
   map b_isRated
     (bookings (snd (postReviews twiceRentedDb (now0 + 172800000) (Some renter) goodReview))) =
     [False, True] \<and>
   length (reviews (snd (postReviews twiceRentedDb (now0 + 172800000) (Some renter) goodReview))) = 1 \<and>
   postReviews heldDb now0 (Some renter) goodReview =
     ((400, ErrorJson ''Invalid review submission''), heldDb)"
proof -
  have u: "su_id renter \<noteq> 0" by (simp add: renter_def)
  have e: "w_equipmentId goodReview = Some 1" by (simp add: goodReview_def)
  have none: "\<not> (\<exists>b \<in> set (bookings heldDb). b_userId b = su_id renter \<and> eligibleFor 1 b)"
    by (simp add: heldDb_def held_def eligibleFor_def)
  have some: "reviewSchemaOk goodReview \<and>
      (\<exists>b \<in> set (bookings twiceRentedDb). b_userId b = su_id renter \<and> eligibleFor 1 b)"
    by (simp add: twiceRentedDb_def heldDb_def earlierPaid_def laterPaid_def paidRow_def held_def
        eligibleFor_def renter_def reviewSchemaOk_def goodReview_def)
  have ev1: "postReviews twiceRentedDb (now0 + 172800000) (Some renter) goodReview =
      ((200, ReviewJson \<lparr>r_id = 1, r_userId = 20, r_equipmentId = 1, r_rating = 5,
                         r_comment = ''Strong and reliable tractor'',
                         r_createdAt = now0 + 172800000\<rparr>),
       twiceRentedDb\<lparr>reviews := [\<lparr>r_id = 1, r_userId = 20, r_equipmentId = 1, r_rating = 5,
                         r_comment = ''Strong and reliable tractor'',
                         r_createdAt = now0 + 172800000\<rparr>],
          reviewsSeq := 1,
          bookings := [earlierPaid,
                       laterPaid\<lparr>b_isRated := True, b_lastStatusUpdate := now0 + 172800000\<rparr>]\<rparr>)"
    by (simp add: postReviews_def reviewSchemaOk_def goodReview_def listBookings_def renter_def
        twiceRentedDb_def heldDb_def earlierPaid_def laterPaid_def paidRow_def held_def
        eligibleFor_def createReview_def updateBooking_def setBooking_def noBookingPatch_def
        orElse_def now0_def Let_def)
  have ev2: "postReviews heldDb now0 (Some renter) goodReview =
     ((400, ErrorJson ''Invalid review submission''), heldDb)"
    by (simp add: postReviews_def reviewSchemaOk_def goodReview_def listBookings_def renter_def
        heldDb_def held_def eligibleFor_def Let_def)
  from review_gate[OF refl u e, of twiceRentedDb "now0 + 172800000"] some
  have "fst (fst (postReviews twiceRentedDb (now0 + 172800000) (Some renter) goodReview)) = 200"
    by blast
  moreover from review_gate[OF refl u e, of heldDb now0] none
  have "fst (fst (postReviews heldDb now0 (Some renter) goodReview)) = 400"
    by blast
  ultimately show ?thesis
    using ev1 ev2
    by (simp add: twiceRentedDb_def heldDb_def earlierPaid_def laterPaid_def paidRow_def held_def)
qed


section \<open>Owner edits of equipment\<close>

lemma setEquipment_keeps_flag:
  "p_availability data = None \<Longrightarrow> e_availability (setEquipment data e) = e_availability e"
  by (simp add: setEquipment_def orElse_def)

lemma updateEquipment_keeps_flags:
  assumes "updateEquipment s eid data = Inr (r, s')" and "p_availability data = None"
  shows "map e_availability (equipmentTable s') = map e_availability (equipmentTable s) \<and>
         bookings s' = bookings s"
  using updateEquipment_frame[OF assms(1)] assms(2)
  by (simp add: setEquipment_keeps_flag o_def)

lemma patchAvailability_owner:
  assumes "user = Some u" and "parseInt idParam = Some eid" and "getEquipment s eid = Some e"
      and "e_ownerId e = su_id u"
  shows "patchAvailability s user idParam (Some v) =
           ((200, EquipmentJson (e\<lparr>e_availability := v\<rparr>)),
            s\<lparr>equipmentTable :=
                map (\<lambda>x. if e_id x = eid then x\<lparr>e_availability := v\<rparr> else x) (equipmentTable s)\<rparr>)"
  using assms updateEquipment_found[OF assms(3) lock_neq, of v]
  by (simp add: patchAvailability_def setEquipment_availability)

text \<open>
  Claim C9, as stated, fails: while booking 1 of the tractor awaits payment and the
  tractor is locked, the owner's availability request sets the tractor's flag back to
  true.
\<close>

theorem owner_sets_flag_during_active_booking_counterexample:
  "b_equipmentId held = 1 \<and> holdsSlot held \<and> bookings heldDb = [held] \<and>
   map_option e_availability (getEquipment heldDb 1) = Some False \<and>
   e_ownerId tractor = su_id owner \<and>
   patchAvailability heldDb (Some owner) ''1'' (Some True) =
     ((200, EquipmentJson tractor), heldDb\<lparr>equipmentTable := [tractor]\<rparr>) \<and>
   map_option e_availability (getEquipment (heldDb\<lparr>equipmentTable := [tractor]\<rparr>) 1) = Some True"
  by (simp add: patchAvailability_def parseInt_1 heldDb_def held_def holdsSlot_def getEquipment_def
      owner_def tractor_def updateEquipment_def noPatch_def setEquipment_def orElse_def Let_def)

lemma updateDataOf_availability [simp]:
  "p_availability (updateDataOf JSON_parse body file) = q_availability body"
  by (simp add: updateDataOf_def)

lemma update_reply_keeps_flags:
  assumes "p_availability data = None"
  shows "map e_availability
           (equipmentTable (snd (case updateEquipment s eid data of
                                   Inl err \<Rightarrow> (r1, s)
                                 | Inr (updated, s') \<Rightarrow> (f updated, s')))) =
           map e_availability (equipmentTable s) \<and>
         bookings (snd (case updateEquipment s eid data of
                          Inl err \<Rightarrow> (r1, s)
                        | Inr (updated, s') \<Rightarrow> (f updated, s'))) = bookings s"
proof (cases "updateEquipment s eid data")
  case (Inl a)
  then show ?thesis by simp
next
  case (Inr b)
  obtain updated s' where b: "b = (updated, s')" by (cases b)
  from updateEquipment_keeps_flags[OF Inr[unfolded b] assms] Inr b show ?thesis by simp
qed

lemma patchEquipment_keeps_flags:
  assumes "q_availability body = None"
  shows "map e_availability (equipmentTable (snd (patchEquipment JSON_parse s user idParam body file))) =
           map e_availability (equipmentTable s) \<and>
         bookings (snd (patchEquipment JSON_parse s user idParam body file)) = bookings s"
proof (cases user)
  case None
  then show ?thesis by (simp add: patchEquipment_def)
next
  case (Some u)
  note u = this
  show ?thesis
  proof (cases "parseInt idParam")
    case None
    with u show ?thesis by (simp add: patchEquipment_def)
  next
    case (Some eid)
    note eid = this
    show ?thesis
    proof (cases "getEquipment s eid")
      case None
      with u eid show ?thesis by (simp add: patchEquipment_def)
    next
      case (Some equip)
      have d: "p_availability (updateDataOf JSON_parse body file) = None"
        using assms by simp
      show ?thesis
        unfolding patchEquipment_def
        using u eid Some
          update_reply_keeps_flags[OF d, where f = "\<lambda>updated. (200::nat, EquipmentJson updated)"]
        by simp
    qed
  qed
qed

text \<open>
  Claim C9, amended. An edit through PATCH /api/equipment/:id whose body has no
  availability field leaves the availability flag of every equipment row, and every
  booking, unchanged. The owner's request to PATCH /api/equipment/:id/availability
  with a value sets the flag of the equipment to that value, whatever bookings refer to
  the equipment.
\<close>

theorem owner_edits_and_the_availability_flag:
  "(q_availability body = None \<longrightarrow>
      map e_availability (equipmentTable (snd (patchEquipment JSON_parse s user idParam body file))) =
        map e_availability (equipmentTable s) \<and>
      bookings (snd (patchEquipment JSON_parse s user idParam body file)) = bookings s) \<and>
   (user' = Some u \<and> parseInt idParam' = Some eid \<and> getEquipment s' eid = Some e \<and>
    e_ownerId e = su_id u \<longrightarrow>
      patchAvailability s' user' idParam' (Some v) =
        ((200, EquipmentJson (e\<lparr>e_availability := v\<rparr>)),
         s'\<lparr>equipmentTable :=
             map (\<lambda>x. if e_id x = eid then x\<lparr>e_availability := v\<rparr> else x) (equipmentTable s')\<rparr>))"
proof (intro conjI impI)
  assume "q_availability body = None"
  from patchEquipment_keeps_flags[OF this]
  show "map e_availability (equipmentTable (snd (patchEquipment JSON_parse s user idParam body file))) =
        map e_availability (equipmentTable s)"
    and "bookings (snd (patchEquipment JSON_parse s user idParam body file)) = bookings s"
    by blast+
next
  assume "user' = Some u \<and> parseInt idParam' = Some eid \<and> getEquipment s' eid = Some e \<and>
    e_ownerId e = su_id u"
  then show "patchAvailability s' user' idParam' (Some v) =
        ((200, EquipmentJson (e\<lparr>e_availability := v\<rparr>)),
         s'\<lparr>equipmentTable :=
             map (\<lambda>x. if e_id x = eid then x\<lparr>e_availability := v\<rparr> else x) (equipmentTable s')\<rparr>)"
    using patchAvailability_owner by blast
qed

lemma parseInt_650: "parseInt ''650'' = Some 650"
  by (simp add: parseInt_def isWhiteSpace_def digitValue_def Let_def)

lemma renameEdit_rate:
  "map e_dailyRate
     (equipmentTable (snd (patchEquipment (\<lambda>t. Some t) heldDb (Some owner) ''1''
        (noEdit\<lparr>q_name := Some ''Tractor 4WD'', q_dailyRate := Some ''650''\<rparr>) None))) = [650]"
  by (simp add: patchEquipment_def updateDataOf_def parseInt_1 parseInt_650 heldDb_def
      getEquipment_def tractor_def owner_def noEdit_def truthy_def updateEquipment_def noPatch_def
      setEquipment_def orElse_def Let_def)

theorem owner_edits_and_the_availability_flag_witness:
  "map e_availability
     (equipmentTable (snd (patchEquipment (\<lambda>t. Some t) heldDb (Some owner) ''1''
        (noEdit\<lparr>q_name := Some ''Tractor 4WD'', q_dailyRate := Some ''650''\<rparr>) None))) = [False] \<and>
   map e_dailyRate
     (equipmentTable (snd (patchEquipment (\<lambda>t. Some t) heldDb (Some owner) ''1''
        (noEdit\<lparr>q_name := Some ''Tractor 4WD'', q_dailyRate := Some ''650''\<rparr>) None))) = [650] \<and>
   map e_availability
     (equipmentTable (snd (patchAvailability heldDb (Some owner) ''1'' (Some True)))) = [True]"
proof -
  have n: "q_availability (noEdit\<lparr>q_name := Some ''Tractor 4WD'', q_dailyRate := Some ''650''\<rparr>) = None"
    by (simp add: noEdit_def)
  have o: "Some owner = Some owner \<and> parseInt ''1'' = Some 1 \<and>
      getEquipment heldDb 1 = Some (tractor\<lparr>e_availability := False\<rparr>) \<and>
      e_ownerId (tractor\<lparr>e_availability := False\<rparr>) = su_id owner"
    by (simp add: parseInt_1 heldDb_def getEquipment_def tractor_def owner_def)
  have t: "map e_availability (equipmentTable heldDb) = [False]"
    by (simp add: heldDb_def)
  from owner_edits_and_the_availability_flag
         [of "noEdit\<lparr>q_name := Some ''Tractor 4WD'', q_dailyRate := Some ''650''\<rparr>"
             "\<lambda>t. Some t" heldDb "Some owner" "''1''" None "Some owner" owner "''1''" 1 heldDb
             "tractor\<lparr>e_availability := False\<rparr>" True] n o
  have a: "map e_availability
     (equipmentTable (snd (patchEquipment (\<lambda>t. Some t) heldDb (Some owner) ''1''
        (noEdit\<lparr>q_name := Some ''Tractor 4WD'', q_dailyRate := Some ''650''\<rparr>) None))) =
        map e_availability (equipmentTable heldDb)"
    and b: "patchAvailability heldDb (Some owner) ''1'' (Some True) =
        ((200, EquipmentJson (tractor\<lparr>e_availability := False, e_availability := True\<rparr>)),
         heldDb\<lparr>equipmentTable :=
             map (\<lambda>x. if e_id x = 1 then x\<lparr>e_availability := True\<rparr> else x)
               (equipmentTable heldDb)\<rparr>)"
    by blast+
  have c: "map e_availability
     (equipmentTable (snd (patchAvailability heldDb (Some owner) ''1'' (Some True)))) = [True]"
    unfolding b by (simp add: heldDb_def tractor_def)
  from a t renameEdit_rate c show ?thesis by simp
qed


end
